theory Spec2Isabelle
  imports Complex_Main
begin

section \<open>The order and payment state machine of \<^verbatim>\<open>payment.service.ts\<close>\<close>

text \<open>
  The class \<^verbatim>\<open>PaymentService\<close> is constructed with a payment repository and an order
  repository and calls the Razorpay adapter. Its methods are embedded as functions that
  take these collaborators as a record of operations \<open>d\<close> and pass the state of the
  outside world (the two ledgers and the gateway) along explicitly. Each method returns the
  state it leaves behind together with either the error it throws (\<open>Inl\<close>) or the value it
  returns (\<open>Inr\<close>); the state is returned on the error path as well, since a method may
  have written before it throws.
\<close>

subsection \<open>Data\<close>

text \<open>The strings \<^verbatim>\<open>'pending'\<close>, \<^verbatim>\<open>'completed'\<close>, \<^verbatim>\<open>'failed'\<close>, \<^verbatim>\<open>'refunded'\<close> of a payment's
  status and of an order's \<^verbatim>\<open>paymentStatus\<close>.\<close>

datatype payment_status = Pending | Completed | Failed | Refunded

text \<open>The order statuses \<^verbatim>\<open>'created'\<close>, \<^verbatim>\<open>'payment_pending'\<close>, \<^verbatim>\<open>'confirmed'\<close>,
  \<^verbatim>\<open>'payment_failed'\<close>, \<^verbatim>\<open>'cancelled'\<close>, \<^verbatim>\<open>'refunded'\<close>.\<close>

datatype order_status =
  Created | PaymentPending | Confirmed | PaymentFailed | Cancelled | OrderRefunded

text \<open>The error classes the service throws, each with its message.\<close>

datatype error =
  NotFoundError string
  | BadRequestError string
  | InternalServerError string

text \<open>An order document; \<open>oid\<close> is its \<^verbatim>\<open>_id\<close>. Amounts are JavaScript numbers; they are
  taken as reals here, so the rounding of \<^verbatim>\<open>totalAmount * 100\<close> is not modelled.\<close>

record order =
  oid :: string
  o_orderNumber :: string
  o_userId :: "string option"
  o_sessionId :: "string option"
  totalAmount :: real
  o_status :: order_status
  paymentStatus :: payment_status
  paymentId :: "nat option"

text \<open>The fields of a payment document; \<open>p_method\<close> is its \<^verbatim>\<open>method\<close>. A payment
  document as the repository hands it out is the pair of its \<^verbatim>\<open>_id\<close> and these fields.\<close>

record payment =
  orderId :: string
  orderNumber :: string
  userId :: "string option"
  sessionId :: "string option"
  provider :: string
  amount :: real
  p_method :: "string option"
  status :: payment_status
  razorpayOrderId :: "string option"
  checkoutId :: "string option"
  checkoutUrl :: "string option"
  transactionId :: "string option"
  gatewayTransactionId :: "string option"
  errorCode :: "string option"
  errorMessage :: "string option"
  failureReason :: "string option"
  refundAmount :: "real option"
  refundTransactionId :: "string option"
  metadata :: "string option"

type_synonym payment_doc = "nat \<times> payment"

text \<open>The parameter objects of the two webhook handlers.\<close>

record success_event =
  se_checkoutId :: "string option"
  se_transactionId :: string
  se_gatewayTransactionId :: "string option"
  se_orderNumber :: "string option"
  se_method :: "string option"
  se_amount :: "real option"
  se_webhookData :: "string option"

record failure_event =
  fe_checkoutId :: "string option"
  fe_transactionId :: "string option"
  fe_orderNumber :: "string option"
  fe_errorCode :: "string option"
  fe_errorMessage :: "string option"
  fe_failureReason :: "string option"
  fe_webhookData :: "string option"

text \<open>What \<^verbatim>\<open>initiateRazorpayPayment\<close> returns for the checkout modal.\<close>

record checkout =
  co_paymentId :: nat
  co_razorpayOrderId :: string
  co_razorpayKeyId :: string
  co_amount :: real
  co_currency :: string
  co_orderNumber :: string

text \<open>JavaScript truthiness of an optional string: \<^verbatim>\<open>undefined\<close> and the empty string
  are falsy.\<close>

definition truthy :: "string option \<Rightarrow> bool" where
  "truthy x = (case x of None \<Rightarrow> False | Some s \<Rightarrow> s \<noteq> [])"

definition val :: "string option \<Rightarrow> string" where
  "val x = (case x of None \<Rightarrow> [] | Some s \<Rightarrow> s)"

text \<open>The text of a payment id inside the template string \<^verbatim>\<open>`cod_${payment._id}`\<close>:
  ids are numbered in the model and written in decimal.\<close>

fun id_text :: "nat \<Rightarrow> string" where
  "id_text n =
     (if n < 10 then [''0123456789'' ! n]
      else id_text (n div 10) @ [''0123456789'' ! (n mod 10)])"

declare id_text.simps [simp del]

subsection \<open>The collaborators\<close>

text \<open>
  The operations of \<^verbatim>\<open>PaymentRepository\<close>, \<^verbatim>\<open>OrderRepository\<close>, \<^verbatim>\<open>razorpayService\<close> and
  \<^verbatim>\<open>config\<close> that the service calls, over a state \<open>'s\<close> of the outside world. A read
  returns the document or nothing; a write returns the new state, and the document it
  resolves to where the service uses it. \<^verbatim>\<open>createOrder\<close> returns \<open>None\<close> when the adapter
  throws.
\<close>

record 's deps =
  paymentRepo_createPayment ::
    "'s \<Rightarrow> string \<Rightarrow> string \<Rightarrow> string option \<Rightarrow> string option \<Rightarrow> string \<Rightarrow> real
       \<Rightarrow> string option \<Rightarrow> 's \<times> payment_doc"
  paymentRepo_updatePayment :: "'s \<Rightarrow> nat \<Rightarrow> string \<Rightarrow> 's"
  paymentRepo_markPaymentCompleted ::
    "'s \<Rightarrow> nat \<Rightarrow> string \<Rightarrow> string option \<Rightarrow> string option \<Rightarrow> string option
       \<Rightarrow> 's \<times> payment_doc option"
  paymentRepo_markPaymentFailed ::
    "'s \<Rightarrow> nat \<Rightarrow> string option \<Rightarrow> string option \<Rightarrow> string option \<Rightarrow> string option
       \<Rightarrow> 's \<times> payment_doc option"
  paymentRepo_updatePaymentStatus :: "'s \<Rightarrow> nat \<Rightarrow> payment_status \<Rightarrow> 's"
  paymentRepo_initiateRefund ::
    "'s \<Rightarrow> nat \<Rightarrow> real \<Rightarrow> string option \<Rightarrow> 's \<times> payment_doc option"
  paymentRepo_getPaymentById :: "'s \<Rightarrow> nat \<Rightarrow> payment_doc option"
  paymentRepo_getPaymentByOrderId :: "'s \<Rightarrow> string \<Rightarrow> payment_doc option"
  paymentRepo_getPaymentByRazorpayOrderId :: "'s \<Rightarrow> string \<Rightarrow> payment_doc option"
  paymentRepo_getPaymentByCheckoutId :: "'s \<Rightarrow> string \<Rightarrow> payment_doc option"
  paymentRepo_getPaymentByTransactionId :: "'s \<Rightarrow> string \<Rightarrow> payment_doc option"
  orderRepo_getOrderById :: "'s \<Rightarrow> string \<Rightarrow> order option"
  orderRepo_getOrderByOrderNumber :: "'s \<Rightarrow> string \<Rightarrow> order option"
  orderRepo_updateOrderStatus :: "'s \<Rightarrow> string \<Rightarrow> order_status \<Rightarrow> payment_status \<Rightarrow> 's"
  orderRepo_updateOrderPaymentId :: "'s \<Rightarrow> string \<Rightarrow> nat \<Rightarrow> 's"
  razorpayService_createOrder ::
    "'s \<Rightarrow> string \<Rightarrow> real \<Rightarrow> string \<Rightarrow> string \<Rightarrow> 's \<times> string option"
  razorpayService_verifyPaymentSignature :: "string \<Rightarrow> string \<Rightarrow> string \<Rightarrow> bool"
  RAZORPAY_KEY_ID :: string

subsection \<open>The service\<close>

text \<open>\<^verbatim>\<open>createPayment\<close> (lines 15 to 58). It returns the document as the repository
  created it, not as the later writes left it.\<close>

definition createPayment ::
  "'s deps \<Rightarrow> 's \<Rightarrow> string \<Rightarrow> string \<Rightarrow> string option \<Rightarrow> string option \<Rightarrow> string \<Rightarrow> real
     \<Rightarrow> string option \<Rightarrow> payment_status option \<Rightarrow> string option \<Rightarrow> 's \<times> payment_doc" where
  "createPayment d st orderId' orderNumber' userId' sessionId' provider' amount' method'
       status' razorpayOrderId' =
     (let (st1, payment) =
            paymentRepo_createPayment d st orderId' orderNumber' userId' sessionId'
              provider' amount' method';
          st2 = (if truthy razorpayOrderId'
                 then paymentRepo_updatePayment d st1 (fst payment) (val razorpayOrderId')
                 else st1);
          st3 = (if status' = Some Completed
                 then fst (paymentRepo_markPaymentCompleted d st2 (fst payment)
                             (''cod_'' @ id_text (fst payment)) None (Some ''cod'') None)
                 else st2);
          st4 = orderRepo_updateOrderPaymentId d st3 orderId' (fst payment)
      in (st4, payment))"

text \<open>\<^verbatim>\<open>processCodPayment\<close> (lines 64 to 96).\<close>

definition processCodPayment ::
  "'s deps \<Rightarrow> 's \<Rightarrow> string \<Rightarrow> 's \<times> (error + payment_doc)" where
  "processCodPayment d st orderId' =
     (case orderRepo_getOrderById d st orderId' of
        None \<Rightarrow> (st, Inl (NotFoundError ''Order not found''))
      | Some order \<Rightarrow>
          (case paymentRepo_getPaymentByOrderId d st orderId' of
             Some existingPayment \<Rightarrow>
               (st, Inl (BadRequestError ''Payment already exists for this order''))
           | None \<Rightarrow>
               (let (st1, payment) =
                      createPayment d st (oid order) (o_orderNumber order) (o_userId order)
                        (o_sessionId order) ''cod'' (totalAmount order) (Some ''cod'')
                        (Some Completed) None;
                    st2 = orderRepo_updateOrderStatus d st1 (oid order) Confirmed Completed
                in (st2, Inr payment))))"

text \<open>\<^verbatim>\<open>initiateRazorpayPayment\<close> (lines 106 to 166). The \<^verbatim>\<open>catch\<close> turns a throwing
  adapter into the internal server error. The repository operations are total here, so
  the adapter is the only call inside the \<^verbatim>\<open>try\<close> that can throw.\<close>

definition initiateRazorpayPayment ::
  "'s deps \<Rightarrow> 's \<Rightarrow> string \<Rightarrow> 's \<times> (error + checkout)" where
  "initiateRazorpayPayment d st orderId' =
     (case orderRepo_getOrderById d st orderId' of
        None \<Rightarrow> (st, Inl (NotFoundError ''Order not found''))
      | Some order \<Rightarrow>
          (let payment = paymentRepo_getPaymentByOrderId d st orderId';
               existing = (case payment of
                             None \<Rightarrow> None
                           | Some p \<Rightarrow>
                               if truthy (razorpayOrderId (snd p)) then Some p else None)
           in case existing of
             Some p \<Rightarrow>
               (st, Inr \<lparr>co_paymentId = fst p,
                         co_razorpayOrderId = val (razorpayOrderId (snd p)),
                         co_razorpayKeyId = RAZORPAY_KEY_ID d,
                         co_amount = totalAmount order * 100,
                         co_currency = ''INR'',
                         co_orderNumber = o_orderNumber order\<rparr>)
           | None \<Rightarrow>
             (case razorpayService_createOrder d st (oid order) (totalAmount order * 100)
                     ''INR'' (o_orderNumber order) of
                (st1, None) \<Rightarrow>
                  (st1, Inl (InternalServerError ''Failed to initiate Razorpay payment''))
              | (st1, Some razorpayOrder_id) \<Rightarrow>
                  (let (st2, newPayment) =
                         createPayment d st1 (oid order) (o_orderNumber order)
                           (o_userId order) (o_sessionId order) ''razorpay''
                           (totalAmount order) None None (Some razorpayOrder_id);
                       st3 = orderRepo_updateOrderStatus d st2 (oid order)
                               PaymentPending Pending
                   in (st3, Inr \<lparr>co_paymentId = fst newPayment,
                                  co_razorpayOrderId = razorpayOrder_id,
                                  co_razorpayKeyId = RAZORPAY_KEY_ID d,
                                  co_amount = totalAmount order * 100,
                                  co_currency = ''INR'',
                                  co_orderNumber = o_orderNumber order\<rparr>)))))"

text \<open>\<^verbatim>\<open>verifyRazorpayPayment\<close> (lines 175 to 220). The parameter \<^verbatim>\<open>orderId\<close> is not
  read by the method.\<close>

definition verifyRazorpayPayment ::
  "'s deps \<Rightarrow> 's \<Rightarrow> string \<Rightarrow> string \<Rightarrow> string \<Rightarrow> string
     \<Rightarrow> 's \<times> (error + payment_doc option)" where
  "verifyRazorpayPayment d st orderId' razorpayOrderId' razorpayPaymentId' razorpaySignature' =
     (if \<not> razorpayService_verifyPaymentSignature d razorpayOrderId' razorpayPaymentId'
             razorpaySignature'
      then (st, Inl (BadRequestError ''Invalid payment signature''))
      else
        (case paymentRepo_getPaymentByRazorpayOrderId d st razorpayOrderId' of
           None \<Rightarrow> (st, Inl (NotFoundError ''Payment not found''))
         | Some p \<Rightarrow>
             if status (snd p) = Completed then (st, Inr (Some p))
             else
               (let (st1, updatedPayment) =
                      paymentRepo_markPaymentCompleted d st (fst p) razorpayPaymentId'
                        (Some razorpayOrderId') (Some ''razorpay'') (Some razorpaySignature');
                    st2 = orderRepo_updateOrderStatus d st1 (orderId (snd p))
                            Confirmed Completed
                in (st2, Inr updatedPayment))))"

text \<open>\<^verbatim>\<open>handlePaymentSuccess\<close> (lines 222 to 270).\<close>

definition handlePaymentSuccess ::
  "'s deps \<Rightarrow> 's \<Rightarrow> success_event \<Rightarrow> 's \<times> (error + payment_doc option)" where
  "handlePaymentSuccess d st params =
     (let payment =
            (if truthy (se_checkoutId params)
             then paymentRepo_getPaymentByCheckoutId d st (val (se_checkoutId params))
             else if truthy (se_orderNumber params)
             then (case orderRepo_getOrderByOrderNumber d st (val (se_orderNumber params)) of
                     None \<Rightarrow> None
                   | Some order \<Rightarrow> paymentRepo_getPaymentByOrderId d st (oid order))
             else if se_transactionId params \<noteq> []
             then paymentRepo_getPaymentByTransactionId d st (se_transactionId params)
             else None)
      in case payment of
           None \<Rightarrow> (st, Inl (NotFoundError ''Payment not found''))
         | Some p \<Rightarrow>
             if status (snd p) = Completed then (st, Inr (Some p))
             else
               (let (st1, updatedPayment) =
                      paymentRepo_markPaymentCompleted d st (fst p) (se_transactionId params)
                        (se_gatewayTransactionId params) (se_method params)
                        (se_webhookData params);
                    st2 = orderRepo_updateOrderStatus d st1 (orderId (snd p))
                            Confirmed Completed
                in (st2, Inr updatedPayment)))"

text \<open>\<^verbatim>\<open>handlePaymentFailure\<close> (lines 272 to 315).\<close>

definition handlePaymentFailure ::
  "'s deps \<Rightarrow> 's \<Rightarrow> failure_event \<Rightarrow> 's \<times> (error + payment_doc option)" where
  "handlePaymentFailure d st params =
     (let payment =
            (if truthy (fe_checkoutId params)
             then paymentRepo_getPaymentByCheckoutId d st (val (fe_checkoutId params))
             else if truthy (fe_orderNumber params)
             then (case orderRepo_getOrderByOrderNumber d st (val (fe_orderNumber params)) of
                     None \<Rightarrow> None
                   | Some order \<Rightarrow> paymentRepo_getPaymentByOrderId d st (oid order))
             else if truthy (fe_transactionId params)
             then paymentRepo_getPaymentByTransactionId d st (val (fe_transactionId params))
             else None)
      in case payment of
           None \<Rightarrow> (st, Inl (NotFoundError ''Payment not found''))
         | Some p \<Rightarrow>
             (let (st1, updatedPayment) =
                    paymentRepo_markPaymentFailed d st (fst p) (fe_errorCode params)
                      (fe_errorMessage params) (fe_failureReason params)
                      (fe_webhookData params);
                  st2 = orderRepo_updateOrderStatus d st1 (orderId (snd p))
                          PaymentFailed Failed
              in (st2, Inr updatedPayment)))"

text \<open>\<^verbatim>\<open>initiateRefund\<close> (lines 333 to 366).\<close>

definition initiateRefund ::
  "'s deps \<Rightarrow> 's \<Rightarrow> nat \<Rightarrow> real \<Rightarrow> string option \<Rightarrow> 's \<times> (error + payment_doc option)" where
  "initiateRefund d st paymentId' refundAmount' refundTransactionId' =
     (case paymentRepo_getPaymentById d st paymentId' of
        None \<Rightarrow> (st, Inl (NotFoundError ''Payment not found''))
      | Some p \<Rightarrow>
          if status (snd p) \<noteq> Completed
          then (st, Inl (BadRequestError ''Can only refund completed payments''))
          else if refundAmount' > amount (snd p)
          then (st, Inl (BadRequestError ''Refund amount cannot exceed payment amount''))
          else
            (let (st1, updatedPayment) =
                   paymentRepo_initiateRefund d st (fst p) refundAmount' refundTransactionId';
                 st2 = orderRepo_updateOrderStatus d st1 (orderId (snd p))
                         OrderRefunded Refunded
             in (st2, Inr updatedPayment)))"

text \<open>\<^verbatim>\<open>retryPayment\<close> (lines 368 to 393): the status write comes before the test of
  the checkout URL.\<close>

definition retryPayment ::
  "'s deps \<Rightarrow> 's \<Rightarrow> string \<Rightarrow> 's \<times> (error + string \<times> nat)" where
  "retryPayment d st orderId' =
     (case paymentRepo_getPaymentByOrderId d st orderId' of
        None \<Rightarrow> (st, Inl (NotFoundError ''Payment not found''))
      | Some p \<Rightarrow>
          if status (snd p) = Completed
          then (st, Inl (BadRequestError ''Payment already completed''))
          else
            (let st1 = paymentRepo_updatePaymentStatus d st (fst p) Pending in
             if truthy (checkoutUrl (snd p))
             then (st1, Inr (val (checkoutUrl (snd p)), fst p))
             else (st1, Inl (BadRequestError ''No checkout URL available for retry''))))"

subsection \<open>The ledgers and the gateway\<close>

text \<open>
  The service imports \<^verbatim>\<open>../repository/payment.repository\<close>, \<^verbatim>\<open>../repository/order.repository\<close>
  and \<^verbatim>\<open>./razorpay.service\<close>; the code of these three modules is not among the sources, so
  their operations are modelled from the specification's sections 4.1 to 4.3, under the
  names and with the arguments the service calls them with. The world holds the payment
  documents in the order of their creation (a document's \<^verbatim>\<open>_id\<close> is its position), the
  order documents, and the list of the write calls and adapter calls made so far.
\<close>

datatype call =
  GatewayCreateOrder string real
  | PaymentInsert nat
  | PaymentWrite nat
  | OrderStatusWrite string order_status payment_status
  | OrderLinkWrite string nat

record world =
  payments :: "payment list"
  orders :: "order list"
  calls :: "call list"

definition logged :: "call \<Rightarrow> world \<Rightarrow> world" where
  "logged c w = w\<lparr>calls := calls w @ [c]\<rparr>"

text \<open>Modelled from the spec: \<^verbatim>\<open>PaymentRepository.getPaymentById\<close>, \<^verbatim>\<open>getPaymentByOrderId\<close>,
  \<^verbatim>\<open>getPaymentByRazorpayOrderId\<close>, \<^verbatim>\<open>getPaymentByCheckoutId\<close> and
  \<^verbatim>\<open>getPaymentByTransactionId\<close> are missing; they are the payment ledger's lookups (4.2,
  "each returns at most one record or not found"). Where several documents match, the one
  created first is returned.\<close>

fun find_doc :: "(payment \<Rightarrow> bool) \<Rightarrow> nat \<Rightarrow> payment list \<Rightarrow> payment_doc option" where
  "find_doc P k [] = None"
| "find_doc P k (p # ps) = (if P p then Some (k, p) else find_doc P (Suc k) ps)"

definition ledger_getPaymentById :: "world \<Rightarrow> nat \<Rightarrow> payment_doc option" where
  "ledger_getPaymentById w i =
     (if i < length (payments w) then Some (i, payments w ! i) else None)"

definition ledger_getPaymentByOrderId :: "world \<Rightarrow> string \<Rightarrow> payment_doc option" where
  "ledger_getPaymentByOrderId w k = find_doc (\<lambda>p. orderId p = k) 0 (payments w)"

definition ledger_getPaymentByRazorpayOrderId :: "world \<Rightarrow> string \<Rightarrow> payment_doc option" where
  "ledger_getPaymentByRazorpayOrderId w k =
     find_doc (\<lambda>p. razorpayOrderId p = Some k) 0 (payments w)"

definition ledger_getPaymentByCheckoutId :: "world \<Rightarrow> string \<Rightarrow> payment_doc option" where
  "ledger_getPaymentByCheckoutId w k = find_doc (\<lambda>p. checkoutId p = Some k) 0 (payments w)"

definition ledger_getPaymentByTransactionId :: "world \<Rightarrow> string \<Rightarrow> payment_doc option" where
  "ledger_getPaymentByTransactionId w k =
     find_doc (\<lambda>p. transactionId p = Some k) 0 (payments w)"

text \<open>Modelled from the spec: \<^verbatim>\<open>PaymentRepository.createPayment\<close> is missing; it is the
  payment ledger's \<open>create(fields)\<close> (4.2): the fields are order id, order number, owner
  reference, provider, amount and method, and the status defaults to pending. The
  specification puts no condition on \<open>create\<close>.\<close>

definition ledger_createPayment ::
  "world \<Rightarrow> string \<Rightarrow> string \<Rightarrow> string option \<Rightarrow> string option \<Rightarrow> string \<Rightarrow> real
     \<Rightarrow> string option \<Rightarrow> world \<times> payment_doc" where
  "ledger_createPayment w orderId' orderNumber' userId' sessionId' provider' amount' method' =
     (let p = \<lparr>orderId = orderId', orderNumber = orderNumber', userId = userId',
                sessionId = sessionId', provider = provider', amount = amount',
                p_method = method', status = Pending, razorpayOrderId = None,
                checkoutId = None, checkoutUrl = None, transactionId = None,
                gatewayTransactionId = None, errorCode = None, errorMessage = None,
                failureReason = None, refundAmount = None, refundTransactionId = None,
                metadata = None\<rparr>;
          i = length (payments w)
      in (logged (PaymentInsert i) (w\<lparr>payments := payments w @ [p]\<rparr>), (i, p)))"

text \<open>A write to the payment document with a given id; nothing is written when there is
  no such document.\<close>

definition write_payment :: "world \<Rightarrow> nat \<Rightarrow> (payment \<Rightarrow> payment) \<Rightarrow> world" where
  "write_payment w i f =
     (if i < length (payments w)
      then logged (PaymentWrite i) (w\<lparr>payments := (payments w)[i := f (payments w ! i)]\<rparr>)
      else w)"

text \<open>An optional argument that is absent leaves the stored field as it is.\<close>

definition keep :: "'a option \<Rightarrow> 'a option \<Rightarrow> 'a option" where
  "keep new old = (case new of None \<Rightarrow> old | Some v \<Rightarrow> Some v)"

text \<open>Modelled from the spec: \<^verbatim>\<open>PaymentRepository.updatePayment\<close> is missing; the service
  calls it as \<^verbatim>\<open>updatePayment(id, {razorpayOrderId})\<close>, the payment ledger's
  \<open>setGatewayOrderId\<close> (4.2).\<close>

definition ledger_updatePayment :: "world \<Rightarrow> nat \<Rightarrow> string \<Rightarrow> world" where
  "ledger_updatePayment w i g = write_payment w i (\<lambda>p. p\<lparr>razorpayOrderId := Some g\<rparr>)"

text \<open>Modelled from the spec: \<^verbatim>\<open>PaymentRepository.markPaymentCompleted\<close> is missing; it is
  the payment ledger's \<open>markCompleted\<close> (4.2): it sets the status completed and is a no-op
  with a successful return when the payment is completed already. The timestamps it
  stamps are left out.\<close>

definition ledger_markPaymentCompleted ::
  "world \<Rightarrow> nat \<Rightarrow> string \<Rightarrow> string option \<Rightarrow> string option \<Rightarrow> string option
     \<Rightarrow> world \<times> payment_doc option" where
  "ledger_markPaymentCompleted w i transactionId' gatewayTransactionId' method' extra =
     (case ledger_getPaymentById w i of
        None \<Rightarrow> (w, None)
      | Some (j, p) \<Rightarrow>
          if status p = Completed then (w, Some (j, p))
          else
            (let w1 = write_payment w i
                        (\<lambda>p. p\<lparr>status := Completed,
                                transactionId := Some transactionId',
                                gatewayTransactionId :=
                                  keep gatewayTransactionId' (gatewayTransactionId p),
                                p_method := keep method' (p_method p),
                                metadata := keep extra (metadata p)\<rparr>)
             in (w1, ledger_getPaymentById w1 i)))"

text \<open>Modelled from the spec: \<^verbatim>\<open>PaymentRepository.markPaymentFailed\<close> is missing; it is the
  payment ledger's \<open>markFailed\<close> (4.2, and 4.4: "the ledger naturally allowing repeated
  failure writes"). The specification gives it no condition on the current status.\<close>

definition ledger_markPaymentFailed ::
  "world \<Rightarrow> nat \<Rightarrow> string option \<Rightarrow> string option \<Rightarrow> string option \<Rightarrow> string option
     \<Rightarrow> world \<times> payment_doc option" where
  "ledger_markPaymentFailed w i errorCode' errorMessage' failureReason' extra =
     (let w1 = write_payment w i
                 (\<lambda>p. p\<lparr>status := Failed,
                         errorCode := keep errorCode' (errorCode p),
                         errorMessage := keep errorMessage' (errorMessage p),
                         failureReason := keep failureReason' (failureReason p),
                         metadata := keep extra (metadata p)\<rparr>)
      in (w1, ledger_getPaymentById w1 i))"

text \<open>Modelled from the spec: \<^verbatim>\<open>PaymentRepository.updatePaymentStatus\<close> is missing. The
  service calls it as \<^verbatim>\<open>updatePaymentStatus({paymentId, status: 'pending'})\<close> under the
  comment "Reset payment status to pending"; the specification lists this use as
  \<open>resetToPending\<close> (4.2) and calls it legal only from failed. The legality is taken as a
  rule for the caller: the write itself stores the status it is given.\<close>

definition ledger_updatePaymentStatus :: "world \<Rightarrow> nat \<Rightarrow> payment_status \<Rightarrow> world" where
  "ledger_updatePaymentStatus w i s = write_payment w i (\<lambda>p. p\<lparr>status := s\<rparr>)"

text \<open>Modelled from the spec: \<^verbatim>\<open>PaymentRepository.initiateRefund\<close> is missing; it is the
  payment ledger's \<open>initiateRefund\<close> (4.2): it records the refund amount and the refund
  transaction id, and the payment becomes refunded (4.4, state machine summary). The
  service checks that the payment is completed and the amount within bounds before it
  calls.\<close>

definition ledger_initiateRefund ::
  "world \<Rightarrow> nat \<Rightarrow> real \<Rightarrow> string option \<Rightarrow> world \<times> payment_doc option" where
  "ledger_initiateRefund w i refundAmount' refundTransactionId' =
     (let w1 = write_payment w i
                 (\<lambda>p. p\<lparr>status := Refunded,
                         refundAmount := Some refundAmount',
                         refundTransactionId :=
                           keep refundTransactionId' (refundTransactionId p)\<rparr>)
      in (w1, ledger_getPaymentById w1 i))"

text \<open>Modelled from the spec: \<^verbatim>\<open>OrderRepository.getOrderById\<close> and
  \<^verbatim>\<open>getOrderByOrderNumber\<close> are missing; they are the order ledger's \<open>getById\<close> and
  \<open>getByOrderNumber\<close> (4.3).\<close>

definition ledger_getOrderById :: "world \<Rightarrow> string \<Rightarrow> order option" where
  "ledger_getOrderById w k = find (\<lambda>x. oid x = k) (orders w)"

definition ledger_getOrderByOrderNumber :: "world \<Rightarrow> string \<Rightarrow> order option" where
  "ledger_getOrderByOrderNumber w k = find (\<lambda>x. o_orderNumber x = k) (orders w)"

text \<open>Modelled from the spec: \<^verbatim>\<open>OrderRepository.updateOrderStatus\<close> is missing; it is the
  order ledger's \<open>updateStatus({orderId, status, paymentStatus})\<close> (4.3), one compound
  write.\<close>

definition ledger_updateOrderStatus ::
  "world \<Rightarrow> string \<Rightarrow> order_status \<Rightarrow> payment_status \<Rightarrow> world" where
  "ledger_updateOrderStatus w k s ps =
     logged (OrderStatusWrite k s ps)
       (w\<lparr>orders := map (\<lambda>x. if oid x = k then x\<lparr>o_status := s, paymentStatus := ps\<rparr> else x)
                        (orders w)\<rparr>)"

text \<open>Modelled from the spec: \<^verbatim>\<open>OrderRepository.updateOrderPaymentId\<close> is missing; it is
  the order ledger's \<open>linkPaymentId(orderId, paymentId)\<close> (4.3).\<close>

definition ledger_updateOrderPaymentId :: "world \<Rightarrow> string \<Rightarrow> nat \<Rightarrow> world" where
  "ledger_updateOrderPaymentId w k i =
     logged (OrderLinkWrite k i)
       (w\<lparr>orders := map (\<lambda>x. if oid x = k then x\<lparr>paymentId := Some i\<rparr> else x) (orders w)\<rparr>)"

text \<open>The number of calls of the adapter's \<^verbatim>\<open>createOrder\<close> made so far.\<close>

fun is_gateway_call :: "call \<Rightarrow> bool" where
  "is_gateway_call (GatewayCreateOrder r a) = True"
| "is_gateway_call c = False"

definition gatewayCalls :: "world \<Rightarrow> nat" where
  "gatewayCalls w = length (filter is_gateway_call (calls w))"

text \<open>Modelled from the spec: \<^verbatim>\<open>razorpayService.createOrder\<close> is missing; it is the gateway
  adapter's \<open>createRemoteOrder\<close> (4.1). The gateway is outside the program, so its answer
  is a parameter: \<open>reply n ref amt\<close> is what the call numbered \<open>n\<close> answers for this
  reference and amount, \<open>None\<close> when it fails.\<close>

definition gateway_createOrder ::
  "(nat \<Rightarrow> string \<Rightarrow> real \<Rightarrow> string option) \<Rightarrow> world \<Rightarrow> string \<Rightarrow> real \<Rightarrow> string \<Rightarrow> string
     \<Rightarrow> world \<times> string option" where
  "gateway_createOrder reply w referenceId amount' currency note =
     (logged (GatewayCreateOrder referenceId amount') w,
      reply (gatewayCalls w) referenceId amount')"

text \<open>The service wired to the ledgers, for a key id, a gateway that answers by \<open>reply\<close>
  and a signature check \<open>verify\<close>.\<close>

definition ledger ::
  "string \<Rightarrow> (nat \<Rightarrow> string \<Rightarrow> real \<Rightarrow> string option) \<Rightarrow> (string \<Rightarrow> string \<Rightarrow> string \<Rightarrow> bool)
     \<Rightarrow> world deps" where
  "ledger key reply verify =
     \<lparr>paymentRepo_createPayment = ledger_createPayment,
      paymentRepo_updatePayment = ledger_updatePayment,
      paymentRepo_markPaymentCompleted = ledger_markPaymentCompleted,
      paymentRepo_markPaymentFailed = ledger_markPaymentFailed,
      paymentRepo_updatePaymentStatus = ledger_updatePaymentStatus,
      paymentRepo_initiateRefund = ledger_initiateRefund,
      paymentRepo_getPaymentById = ledger_getPaymentById,
      paymentRepo_getPaymentByOrderId = ledger_getPaymentByOrderId,
      paymentRepo_getPaymentByRazorpayOrderId = ledger_getPaymentByRazorpayOrderId,
      paymentRepo_getPaymentByCheckoutId = ledger_getPaymentByCheckoutId,
      paymentRepo_getPaymentByTransactionId = ledger_getPaymentByTransactionId,
      orderRepo_getOrderById = ledger_getOrderById,
      orderRepo_getOrderByOrderNumber = ledger_getOrderByOrderNumber,
      orderRepo_updateOrderStatus = ledger_updateOrderStatus,
      orderRepo_updateOrderPaymentId = ledger_updateOrderPaymentId,
      razorpayService_createOrder = gateway_createOrder reply,
      razorpayService_verifyPaymentSignature = verify,
      RAZORPAY_KEY_ID = key\<rparr>"

text \<open>The error kinds of the specification, as the service raises them.\<close>

definition OrderNotFound :: error where
  "OrderNotFound = NotFoundError ''Order not found''"

definition PaymentNotFound :: error where
  "PaymentNotFound = NotFoundError ''Payment not found''"

definition DuplicatePayment :: error where
  "DuplicatePayment = BadRequestError ''Payment already exists for this order''"

definition InvalidSignature :: error where
  "InvalidSignature = BadRequestError ''Invalid payment signature''"

definition InvalidStateNotCompleted :: error where
  "InvalidStateNotCompleted = BadRequestError ''Can only refund completed payments''"

definition InvalidAmount :: error where
  "InvalidAmount = BadRequestError ''Refund amount cannot exceed payment amount''"

definition AlreadyCompleted :: error where
  "AlreadyCompleted = BadRequestError ''Payment already completed''"

definition NoCheckoutAvailable :: error where
  "NoCheckoutAvailable = BadRequestError ''No checkout URL available for retry''"

definition GatewayIntegrationFailure :: error where
  "GatewayIntegrationFailure = InternalServerError ''Failed to initiate Razorpay payment''"

subsection \<open>Operations as data, and runs\<close>

text \<open>The entry points of the state machine as a datatype, the state one call leaves
  behind, and the state after a sequence of calls.\<close>

datatype op =
  ProcessCodPayment string
  | InitiateGatewayPayment string
  | VerifyGatewayPayment string string string string
  | HandlePaymentSuccess success_event
  | HandlePaymentFailure failure_event
  | InitiateRefund nat real "string option"
  | RetryPayment string

fun step :: "'s deps \<Rightarrow> 's \<Rightarrow> op \<Rightarrow> 's" where
  "step d st (ProcessCodPayment k) = fst (processCodPayment d st k)"
| "step d st (InitiateGatewayPayment k) = fst (initiateRazorpayPayment d st k)"
| "step d st (VerifyGatewayPayment k ro rp sg) = fst (verifyRazorpayPayment d st k ro rp sg)"
| "step d st (HandlePaymentSuccess ev) = fst (handlePaymentSuccess d st ev)"
| "step d st (HandlePaymentFailure ev) = fst (handlePaymentFailure d st ev)"
| "step d st (InitiateRefund i a t) = fst (initiateRefund d st i a t)"
| "step d st (RetryPayment k) = fst (retryPayment d st k)"

fun run :: "'s deps \<Rightarrow> 's \<Rightarrow> op list \<Rightarrow> 's" where
  "run d st [] = st"
| "run d st (x # xs) = run d (step d st x) xs"

subsection \<open>The rules of the specification\<close>

text \<open>The lookup rule of the specification for the two webhook handlers: the checkout id if
  the event carries one, else the order number (the order, then its payment), else the
  transaction id. It is stated on its own here to be compared with the handlers.\<close>

definition resolved_by ::
  "'s deps \<Rightarrow> 's \<Rightarrow> string option \<Rightarrow> string option \<Rightarrow> string option \<Rightarrow> payment_doc option" where
  "resolved_by d st c n t =
     (if truthy c then paymentRepo_getPaymentByCheckoutId d st (val c)
      else if truthy n then
        (case orderRepo_getOrderByOrderNumber d st (val n) of
           None \<Rightarrow> None
         | Some order \<Rightarrow> paymentRepo_getPaymentByOrderId d st (oid order))
      else if truthy t then paymentRepo_getPaymentByTransactionId d st (val t)
      else None)"

text \<open>The order confirmations among the write calls made so far: the compound writes of
  status confirmed with payment status completed.\<close>

definition is_confirmation :: "call \<Rightarrow> bool" where
  "is_confirmation c =
     (case c of OrderStatusWrite k s ps \<Rightarrow> s = Confirmed \<and> ps = Completed | _ \<Rightarrow> False)"

definition orderConfirmations :: "world \<Rightarrow> nat" where
  "orderConfirmations w = length (filter is_confirmation (calls w))"

text \<open>The cross-entity invariant of the specification, for one payment and its order, and
  for a world: every payment has its order, a payment is completed exactly when the order
  is confirmed with payment status completed, a failed payment's order is payment-failed
  and a refunded payment's order is refunded.\<close>

definition consistent_with :: "payment \<Rightarrow> order \<Rightarrow> bool" where
  "consistent_with p ord =
     (((status p = Completed) = (o_status ord = Confirmed \<and> paymentStatus ord = Completed))
      \<and> (if status p = Failed then o_status ord = PaymentFailed else True)
      \<and> (if status p = Refunded then o_status ord = OrderRefunded else True))"

definition consistent :: "world \<Rightarrow> bool" where
  "consistent w =
     list_all (\<lambda>p. case ledger_getOrderById w (orderId p) of
                      None \<Rightarrow> False
                    | Some ord \<Rightarrow> consistent_with p ord)
       (payments w)"

subsection \<open>Example worlds\<close>

text \<open>One order of 1500.00 and no payment; a gateway that answers the call numbered \<open>n\<close>
  with the id \<open>gw_\<close> followed by \<open>n + 1\<close> and accepts the signature \<open>good\<close>; and a gateway
  that is down.\<close>

definition order1 :: order where
  "order1 = \<lparr>oid = ''o1'', o_orderNumber = ''O1'', o_userId = Some ''u1'', o_sessionId = None,
     totalAmount = 1500, o_status = Created, paymentStatus = Pending, paymentId = None\<rparr>"

definition world0 :: world where
  "world0 = \<lparr>payments = [], orders = [order1], calls = []\<rparr>"

definition shop :: "world deps" where
  "shop = ledger ''rzp_key'' (\<lambda>n r a. Some (''gw_'' @ id_text (Suc n)))
            (\<lambda>ro rp sg. sg = ''good'')"

definition offline :: "world deps" where
  "offline = ledger ''rzp_key'' (\<lambda>n r a. None) (\<lambda>ro rp sg. False)"

text \<open>The payment that a gateway checkout for the order creates, and the world after
  \<^verbatim>\<open>initiateRazorpayPayment\<close> for it.\<close>

definition payment1 :: payment where
  "payment1 = \<lparr>orderId = ''o1'', orderNumber = ''O1'', userId = Some ''u1'',
     sessionId = None, provider = ''razorpay'', amount = 1500, p_method = None,
     status = Pending, razorpayOrderId = Some ''gw_1'', checkoutId = None,
     checkoutUrl = None, transactionId = None, gatewayTransactionId = None,
     errorCode = None, errorMessage = None, failureReason = None, refundAmount = None,
     refundTransactionId = None, metadata = None\<rparr>"

definition initiated_world :: world where
  "initiated_world = fst (initiateRazorpayPayment shop world0 ''o1'')"

text \<open>Webhook events that carry a checkout id no payment has, next to an order number and
  a transaction id.\<close>

definition stray_success :: success_event where
  "stray_success = \<lparr>se_checkoutId = Some ''chk_7'', se_transactionId = ''pay_9'',
     se_gatewayTransactionId = None, se_orderNumber = Some ''O1'', se_method = None,
     se_amount = None, se_webhookData = None\<rparr>"

definition stray_failure :: failure_event where
  "stray_failure = \<lparr>fe_checkoutId = Some ''chk_7'', fe_transactionId = Some ''pay_9'',
     fe_orderNumber = Some ''O1'', fe_errorCode = None, fe_errorMessage = None,
     fe_failureReason = None, fe_webhookData = None\<rparr>"

text \<open>The success webhook of the specification's scenario, a failure webhook for the same
  order, and the worlds after each of them arrives for the initiated checkout.\<close>

definition paid :: success_event where
  "paid = \<lparr>se_checkoutId = None, se_transactionId = ''pay_9'',
     se_gatewayTransactionId = None, se_orderNumber = Some ''O1'', se_method = None,
     se_amount = None, se_webhookData = None\<rparr>"

definition declined :: failure_event where
  "declined = \<lparr>fe_checkoutId = None, fe_transactionId = None,
     fe_orderNumber = Some ''O1'', fe_errorCode = Some ''BAD_REQUEST_ERROR'',
     fe_errorMessage = None, fe_failureReason = Some ''payment_failed'',
     fe_webhookData = None\<rparr>"

definition paid_world :: world where
  "paid_world = fst (handlePaymentSuccess shop initiated_world paid)"

definition failed_world :: world where
  "failed_world = fst (handlePaymentFailure shop initiated_world declined)"

text \<open>The world after the full refund of the paid order.\<close>

definition refunded_world :: world where
  "refunded_world = fst (initiateRefund shop paid_world 0 1500 None)"

section \<open>Facts about the ledgers\<close>

text \<open>The operations of the service wired to the ledgers are the ledgers' operations.\<close>

lemma ledger_sel [simp]:
  "paymentRepo_createPayment (ledger k r v) = ledger_createPayment"
  "paymentRepo_updatePayment (ledger k r v) = ledger_updatePayment"
  "paymentRepo_markPaymentCompleted (ledger k r v) = ledger_markPaymentCompleted"
  "paymentRepo_markPaymentFailed (ledger k r v) = ledger_markPaymentFailed"
  "paymentRepo_updatePaymentStatus (ledger k r v) = ledger_updatePaymentStatus"
  "paymentRepo_initiateRefund (ledger k r v) = ledger_initiateRefund"
  "paymentRepo_getPaymentById (ledger k r v) = ledger_getPaymentById"
  "paymentRepo_getPaymentByOrderId (ledger k r v) = ledger_getPaymentByOrderId"
  "paymentRepo_getPaymentByRazorpayOrderId (ledger k r v) = ledger_getPaymentByRazorpayOrderId"
  "paymentRepo_getPaymentByCheckoutId (ledger k r v) = ledger_getPaymentByCheckoutId"
  "paymentRepo_getPaymentByTransactionId (ledger k r v) = ledger_getPaymentByTransactionId"
  "orderRepo_getOrderById (ledger k r v) = ledger_getOrderById"
  "orderRepo_getOrderByOrderNumber (ledger k r v) = ledger_getOrderByOrderNumber"
  "orderRepo_updateOrderStatus (ledger k r v) = ledger_updateOrderStatus"
  "orderRepo_updateOrderPaymentId (ledger k r v) = ledger_updateOrderPaymentId"
  "razorpayService_createOrder (ledger k r v) = gateway_createOrder r"
  "razorpayService_verifyPaymentSignature (ledger k r v) = v"
  "RAZORPAY_KEY_ID (ledger k r v) = k"
  by (simp_all add: ledger_def)

lemma logged_sel [simp]:
  "payments (logged c w) = payments w"
  "orders (logged c w) = orders w"
  "calls (logged c w) = calls w @ [c]"
  by (simp_all add: logged_def)

text \<open>The definitions that evaluate the service on an example world.\<close>

lemmas service_defs =
  createPayment_def processCodPayment_def initiateRazorpayPayment_def
  verifyRazorpayPayment_def handlePaymentSuccess_def handlePaymentFailure_def
  initiateRefund_def retryPayment_def

lemmas ledger_defs =
  ledger_getPaymentById_def ledger_getPaymentByOrderId_def
  ledger_getPaymentByRazorpayOrderId_def ledger_getPaymentByCheckoutId_def
  ledger_getPaymentByTransactionId_def ledger_createPayment_def write_payment_def
  keep_def ledger_updatePayment_def ledger_markPaymentCompleted_def
  ledger_markPaymentFailed_def ledger_updatePaymentStatus_def ledger_initiateRefund_def
  ledger_getOrderById_def ledger_getOrderByOrderNumber_def ledger_updateOrderStatus_def
  ledger_updateOrderPaymentId_def gatewayCalls_def gateway_createOrder_def logged_def
  truthy_def val_def Let_def

lemma id_text_small [simp]: "id_text 0 = ''0''" "id_text (Suc 0) = ''1''" "id_text 1 = ''1''"
  by (simp_all add: id_text.simps)

lemma id_text_two [simp]: "id_text (Suc (Suc 0)) = ''2''" "id_text 2 = ''2''"
  by (simp_all add: id_text.simps)

lemma initiate_world0:
  "initiateRazorpayPayment shop world0 ''o1'' =
     (\<lparr>payments = [payment1],
       orders = [order1\<lparr>o_status := PaymentPending, paymentStatus := Pending,
                        paymentId := Some 0\<rparr>],
       calls = [GatewayCreateOrder ''o1'' 150000, PaymentInsert 0, PaymentWrite 0,
                OrderLinkWrite ''o1'' 0, OrderStatusWrite ''o1'' PaymentPending Pending]\<rparr>,
      Inr \<lparr>co_paymentId = 0, co_razorpayOrderId = ''gw_1'', co_razorpayKeyId = ''rzp_key'',
           co_amount = 150000, co_currency = ''INR'', co_orderNumber = ''O1''\<rparr>)"
  by (simp add: shop_def world0_def order1_def payment1_def service_defs ledger_defs)

lemma initiated_world_eq:
  "initiated_world =
     \<lparr>payments = [payment1],
       orders = [order1\<lparr>o_status := PaymentPending, paymentStatus := Pending,
                        paymentId := Some 0\<rparr>],
       calls = [GatewayCreateOrder ''o1'' 150000, PaymentInsert 0, PaymentWrite 0,
                OrderLinkWrite ''o1'' 0, OrderStatusWrite ''o1'' PaymentPending Pending]\<rparr>"
  by (simp add: initiated_world_def initiate_world0)

text \<open>A lookup returns a document at its position that satisfies the predicate, the
  first such; a document rewritten in place is found where it was, when the rewriting keeps
  the predicate at that position.\<close>

lemma find_doc_Some:
  "find_doc P k ps = Some (i, p) \<Longrightarrow>
     k \<le> i \<and> i - k < length ps \<and> ps ! (i - k) = p \<and> P p"
proof (induction ps arbitrary: k)
  case Nil
  then show ?case by simp
next
  case (Cons q qs)
  show ?case
  proof (cases "P q")
    case True
    with Cons.prems show ?thesis by simp
  next
    case False
    with Cons.prems have "find_doc P (Suc k) qs = Some (i, p)" by simp
    from Cons.IH [OF this] show ?thesis by (auto simp add: Suc_diff_le)
  qed
qed

lemma find_doc_None: "(find_doc P k ps = None) = (\<forall>p \<in> set ps. \<not> P p)"
  by (induction ps arbitrary: k) auto

lemma find_doc_append:
  "find_doc P k (ps @ qs) =
     (case find_doc P k ps of
        None \<Rightarrow> find_doc P (k + length ps) qs
      | Some r \<Rightarrow> Some r)"
  by (induction ps arbitrary: k) (auto split: option.splits)

lemma find_doc_update:
  "i < length ps \<Longrightarrow> P q = P (ps ! i) \<Longrightarrow>
     find_doc P k (ps[i := q]) =
       (case find_doc P k ps of
          None \<Rightarrow> None
        | Some (j, p) \<Rightarrow> if j = k + i then Some (j, q) else Some (j, p))"
proof (induction ps arbitrary: k i)
  case Nil
  then show ?case by simp
next
  case (Cons a ps)
  show ?case
  proof (cases i)
    case 0
    with Cons.prems show ?thesis
      by (auto split: option.splits dest!: find_doc_Some)
  next
    case (Suc n)
    with Cons.prems have "n < length ps" "P q = P (ps ! n)" by simp_all
    from Cons.IH [OF this, of "Suc k"] Suc show ?thesis
      by (auto split: option.splits)
  qed
qed

lemma find_map_preserved:
  "(\<And>x. P (f x) = P x) \<Longrightarrow> find P (map f xs) = map_option f (find P xs)"
  by (induction xs) auto

lemma find_Some_holds: "find P xs = Some x \<Longrightarrow> P x"
  by (induction xs) (auto split: if_splits)

text \<open>What the writes change and what the lookups return.\<close>

lemma write_payment_sel [simp]:
  "payments (write_payment w i f) = (payments w)[i := f (payments w ! i)]"
  "orders (write_payment w i f) = orders w"
  "calls (write_payment w i f) =
     (if i < length (payments w) then calls w @ [PaymentWrite i] else calls w)"
  by (simp_all add: write_payment_def list_update_beyond)

lemma getPaymentById_Some:
  "ledger_getPaymentById w i = Some (j, p) \<Longrightarrow>
     j = i \<and> i < length (payments w) \<and> payments w ! i = p"
  by (auto simp add: ledger_getPaymentById_def split: if_splits)

lemma getPaymentByOrderId_Some:
  "ledger_getPaymentByOrderId w k = Some (i, p) \<Longrightarrow>
     i < length (payments w) \<and> payments w ! i = p \<and> orderId p = k"
  by (auto simp add: ledger_getPaymentByOrderId_def dest!: find_doc_Some)

lemma getPaymentByRazorpayOrderId_Some:
  "ledger_getPaymentByRazorpayOrderId w k = Some (i, p) \<Longrightarrow>
     i < length (payments w) \<and> payments w ! i = p \<and> razorpayOrderId p = Some k"
  by (auto simp add: ledger_getPaymentByRazorpayOrderId_def dest!: find_doc_Some)

lemma getPaymentByCheckoutId_Some:
  "ledger_getPaymentByCheckoutId w k = Some (i, p) \<Longrightarrow>
     i < length (payments w) \<and> payments w ! i = p \<and> checkoutId p = Some k"
  by (auto simp add: ledger_getPaymentByCheckoutId_def dest!: find_doc_Some)

lemma getPaymentByTransactionId_Some:
  "ledger_getPaymentByTransactionId w k = Some (i, p) \<Longrightarrow>
     i < length (payments w) \<and> payments w ! i = p \<and> transactionId p = Some k"
  by (auto simp add: ledger_getPaymentByTransactionId_def dest!: find_doc_Some)

lemma getOrderById_oid: "ledger_getOrderById w k = Some ord \<Longrightarrow> oid ord = k"
  by (auto simp add: ledger_getOrderById_def dest: find_Some_holds)

lemma updateOrderStatus_sel [simp]:
  "payments (ledger_updateOrderStatus w k s ps) = payments w"
  "orders (ledger_updateOrderStatus w k s ps) =
     map (\<lambda>x. if oid x = k then x\<lparr>o_status := s, paymentStatus := ps\<rparr> else x) (orders w)"
  "calls (ledger_updateOrderStatus w k s ps) = calls w @ [OrderStatusWrite k s ps]"
  by (simp_all add: ledger_updateOrderStatus_def)

lemma updateOrderPaymentId_sel [simp]:
  "payments (ledger_updateOrderPaymentId w k i) = payments w"
  "orders (ledger_updateOrderPaymentId w k i) =
     map (\<lambda>x. if oid x = k then x\<lparr>paymentId := Some i\<rparr> else x) (orders w)"
  "calls (ledger_updateOrderPaymentId w k i) = calls w @ [OrderLinkWrite k i]"
  by (simp_all add: ledger_updateOrderPaymentId_def)

lemma getOrderById_updateOrderStatus:
  "ledger_getOrderById (ledger_updateOrderStatus w k s ps) k' =
     map_option (\<lambda>x. if oid x = k then x\<lparr>o_status := s, paymentStatus := ps\<rparr> else x)
       (ledger_getOrderById w k')"
  unfolding ledger_getOrderById_def updateOrderStatus_sel
  by (rule find_map_preserved) simp

lemma getOrderById_updateOrderPaymentId:
  "ledger_getOrderById (ledger_updateOrderPaymentId w k i) k' =
     map_option (\<lambda>x. if oid x = k then x\<lparr>paymentId := Some i\<rparr> else x)
       (ledger_getOrderById w k')"
  unfolding ledger_getOrderById_def updateOrderPaymentId_sel
  by (rule find_map_preserved) simp

lemma getOrderById_write_payment [simp]:
  "ledger_getOrderById (write_payment w i f) k = ledger_getOrderById w k"
  by (simp add: ledger_getOrderById_def)

text \<open>\<^verbatim>\<open>createPayment\<close> on the ledgers, for cash on delivery and for a gateway order id
  that is not empty.\<close>

lemma createPayment_cod:
  "createPayment (ledger key reply verify) w k num u s ''cod'' amt (Some ''cod'')
       (Some Completed) None =
     (let n = length (payments w);
          doc = \<lparr>orderId = k, orderNumber = num, userId = u, sessionId = s,
                  provider = ''cod'', amount = amt, p_method = Some ''cod'',
                  status = Pending, razorpayOrderId = None, checkoutId = None,
                  checkoutUrl = None, transactionId = None, gatewayTransactionId = None,
                  errorCode = None, errorMessage = None, failureReason = None,
                  refundAmount = None, refundTransactionId = None, metadata = None\<rparr>
      in (\<lparr>payments = payments w
                @ [doc\<lparr>status := Completed, transactionId := Some (''cod_'' @ id_text n)\<rparr>],
            orders = map (\<lambda>x. if oid x = k then x\<lparr>paymentId := Some n\<rparr> else x) (orders w),
            calls = calls w @ [PaymentInsert n, PaymentWrite n, OrderLinkWrite k n]\<rparr>,
          (n, doc)))"
  by (simp add: createPayment_def ledger_createPayment_def ledger_markPaymentCompleted_def
      ledger_getPaymentById_def write_payment_def ledger_updateOrderPaymentId_def
      logged_def keep_def truthy_def Let_def)

lemma createPayment_gateway:
  "g \<noteq> [] \<Longrightarrow>
   createPayment (ledger key reply verify) w k num u s ''razorpay'' amt None None (Some g) =
     (let n = length (payments w);
          doc = \<lparr>orderId = k, orderNumber = num, userId = u, sessionId = s,
                  provider = ''razorpay'', amount = amt, p_method = None,
                  status = Pending, razorpayOrderId = None, checkoutId = None,
                  checkoutUrl = None, transactionId = None, gatewayTransactionId = None,
                  errorCode = None, errorMessage = None, failureReason = None,
                  refundAmount = None, refundTransactionId = None, metadata = None\<rparr>
      in (\<lparr>payments = payments w @ [doc\<lparr>razorpayOrderId := Some g\<rparr>],
            orders = map (\<lambda>x. if oid x = k then x\<lparr>paymentId := Some n\<rparr> else x) (orders w),
            calls = calls w @ [PaymentInsert n, PaymentWrite n, OrderLinkWrite k n]\<rparr>,
          (n, doc)))"
  by (simp add: createPayment_def ledger_createPayment_def ledger_updatePayment_def
      write_payment_def ledger_updateOrderPaymentId_def logged_def truthy_def val_def Let_def)

lemma gatewayCalls_logged [simp]:
  "gatewayCalls (logged c w) = (if is_gateway_call c then Suc (gatewayCalls w) else gatewayCalls w)"
  by (simp add: gatewayCalls_def)

section \<open>Facts about the service on the ledgers\<close>

text \<open>The success handler acts on the payment that the lookup rule resolves, and the
  payment it has completed is resolved again by the same event.\<close>

lemma handlePaymentSuccess_resolved:
  "handlePaymentSuccess d st ev =
     (case resolved_by d st (se_checkoutId ev) (se_orderNumber ev) (Some (se_transactionId ev)) of
        None \<Rightarrow> (st, Inl PaymentNotFound)
      | Some p \<Rightarrow>
          if status (snd p) = Completed then (st, Inr (Some p))
          else
            (orderRepo_updateOrderStatus d
               (fst (paymentRepo_markPaymentCompleted d st (fst p) (se_transactionId ev)
                       (se_gatewayTransactionId ev) (se_method ev) (se_webhookData ev)))
               (orderId (snd p)) Confirmed Completed,
             Inr (snd (paymentRepo_markPaymentCompleted d st (fst p) (se_transactionId ev)
                         (se_gatewayTransactionId ev) (se_method ev) (se_webhookData ev)))))"
  by (simp add: handlePaymentSuccess_def resolved_by_def PaymentNotFound_def truthy_def val_def
      split: prod.splits option.splits)

lemma find_doc_rewritten:
  assumes found: "find_doc P 0 ps = Some (i, p)" and keeps: "P q"
  shows "find_doc P 0 (ps[i := q]) = Some (i, q)"
proof -
  from find_doc_Some [OF found] have i: "i < length ps" and p: "ps ! i = p" and "P p"
    by simp_all
  with keeps have "P q = P (ps ! i)" by simp
  from find_doc_update [OF i this, of 0] found show ?thesis by simp
qed

lemma getOrderByOrderNumber_updateOrderStatus:
  "ledger_getOrderByOrderNumber (ledger_updateOrderStatus w k s ps) n =
     map_option (\<lambda>x. if oid x = k then x\<lparr>o_status := s, paymentStatus := ps\<rparr> else x)
       (ledger_getOrderByOrderNumber w n)"
  unfolding ledger_getOrderByOrderNumber_def updateOrderStatus_sel
  by (rule find_map_preserved) simp

lemma resolved_by_ledger_Some:
  "resolved_by (ledger key reply verify) w c n t = Some (i, p) \<Longrightarrow>
     i < length (payments w) \<and> payments w ! i = p"
  by (auto simp add: resolved_by_def split: if_splits option.splits
      dest: getPaymentByCheckoutId_Some getPaymentByOrderId_Some getPaymentByTransactionId_Some)

lemma resolved_by_after_completion:
  assumes r: "resolved_by (ledger key reply verify) w c n (Some t) = Some (i, p)"
    and q: "orderId q = orderId p" "checkoutId q = checkoutId p" "transactionId q = Some t"
  shows "resolved_by (ledger key reply verify)
           (ledger_updateOrderStatus (w\<lparr>payments := (payments w)[i := q], calls := cs\<rparr>) k s ps)
           c n (Some t) = Some (i, q)"
proof -
  let ?w' = "ledger_updateOrderStatus (w\<lparr>payments := (payments w)[i := q], calls := cs\<rparr>) k s ps"
  have pays: "payments ?w' = (payments w)[i := q]" by simp
  show ?thesis
  proof (cases "truthy c")
    case True
    with r have f: "find_doc (\<lambda>p. checkoutId p = Some (val c)) 0 (payments w) = Some (i, p)"
      by (simp add: resolved_by_def ledger_getPaymentByCheckoutId_def)
    from find_doc_Some [OF f] q have "checkoutId q = Some (val c)" by simp
    from find_doc_rewritten [OF f, of q, OF this] True show ?thesis
      by (simp add: resolved_by_def ledger_getPaymentByCheckoutId_def)
  next
    case noc: False
    show ?thesis
    proof (cases "truthy n")
      case True
      with noc r obtain ord where o: "ledger_getOrderByOrderNumber w (val n) = Some ord"
        and f: "find_doc (\<lambda>p. orderId p = oid ord) 0 (payments w) = Some (i, p)"
        by (auto simp add: resolved_by_def ledger_getPaymentByOrderId_def split: option.splits)
      from find_doc_Some [OF f] q have "orderId q = oid ord" by simp
      note f' = find_doc_rewritten [OF f, of q, OF this]
      from o have "ledger_getOrderByOrderNumber
          (w\<lparr>payments := (payments w)[i := q], calls := cs\<rparr>) (val n) = Some ord"
        by (simp add: ledger_getOrderByOrderNumber_def)
      then obtain ord' where o': "ledger_getOrderByOrderNumber ?w' (val n) = Some ord'"
        and same: "oid ord' = oid ord"
        by (auto simp add: getOrderByOrderNumber_updateOrderStatus)
      from f' noc True o' same show ?thesis
        by (simp add: resolved_by_def ledger_getPaymentByOrderId_def)
    next
      case non: False
      with noc r have f: "find_doc (\<lambda>p. transactionId p = Some t) 0 (payments w) = Some (i, p)"
        by (simp add: resolved_by_def ledger_getPaymentByTransactionId_def truthy_def val_def
            split: if_splits)
      from noc non r have t: "t \<noteq> []"
        by (simp add: resolved_by_def truthy_def split: if_splits)
      from find_doc_rewritten [OF f, of q] q t noc non show ?thesis
        by (simp add: resolved_by_def ledger_getPaymentByTransactionId_def truthy_def val_def)
    qed
  qed
qed

text \<open>What each operation does to a payment that exists: the operations that create a
  payment leave it alone, and each of the others leaves its status or moves it as stated.\<close>

lemma markPaymentCompleted_payments:
  "payments (fst (ledger_markPaymentCompleted w i t g m x)) =
     (if i < length (payments w) \<and> status (payments w ! i) \<noteq> Completed
      then (payments w)[i := (payments w ! i)\<lparr>status := Completed,
              transactionId := Some t,
              gatewayTransactionId := keep g (gatewayTransactionId (payments w ! i)),
              p_method := keep m (p_method (payments w ! i)),
              metadata := keep x (metadata (payments w ! i))\<rparr>]
      else payments w)"
  by (simp add: ledger_markPaymentCompleted_def ledger_getPaymentById_def Let_def)

lemma createPayment_payments:
  "\<exists>q. payments (fst (createPayment (ledger key reply verify) w k num u s pr amt m st g))
        = payments w @ [q]"
  by (simp add: createPayment_def ledger_createPayment_def ledger_updatePayment_def
      ledger_markPaymentCompleted_def ledger_getPaymentById_def Let_def
      split: prod.splits)

lemma processCodPayment_keeps:
  assumes "i < length (payments w)"
  shows "i < length (payments (fst (processCodPayment (ledger key reply verify) w k)))
    \<and> payments (fst (processCodPayment (ledger key reply verify) w k)) ! i = payments w ! i"
proof -
  let ?L = "ledger key reply verify"
  show ?thesis
  proof (cases "ledger_getOrderById w k")
    case None
    with assms show ?thesis by (simp add: processCodPayment_def)
  next
    case (Some ord)
    show ?thesis
    proof (cases "ledger_getPaymentByOrderId w k")
      case (Some p)
      with \<open>ledger_getOrderById w k = Some ord\<close> assms show ?thesis
        by (simp add: processCodPayment_def)
    next
      case None
      from createPayment_payments [of key reply verify w "oid ord" "o_orderNumber ord"
          "o_userId ord" "o_sessionId ord" "''cod''" "totalAmount ord" "Some ''cod''"
          "Some Completed" None]
      obtain q where "payments (fst (createPayment ?L w (oid ord) (o_orderNumber ord)
          (o_userId ord) (o_sessionId ord) ''cod'' (totalAmount ord) (Some ''cod'')
          (Some Completed) None)) = payments w @ [q]" by blast
      with None \<open>ledger_getOrderById w k = Some ord\<close> assms show ?thesis
        by (simp add: processCodPayment_def case_prod_beta nth_append)
    qed
  qed
qed

lemma initiateRazorpayPayment_keeps:
  assumes "i < length (payments w)"
  shows "i < length (payments (fst (initiateRazorpayPayment (ledger key reply verify) w k)))
    \<and> payments (fst (initiateRazorpayPayment (ledger key reply verify) w k)) ! i
        = payments w ! i"
proof -
  let ?L = "ledger key reply verify"
  show ?thesis
  proof (cases "ledger_getOrderById w k")
    case None
    with assms show ?thesis by (simp add: initiateRazorpayPayment_def)
  next
    case (Some ord)
    let ?w0 = "logged (GatewayCreateOrder (oid ord) (totalAmount ord * 100)) w"
    have cp: "\<exists>q. payments (fst (createPayment ?L ?w0 (oid ord) (o_orderNumber ord)
          (o_userId ord) (o_sessionId ord) ''razorpay'' (totalAmount ord) None None (Some g)))
          = payments w @ [q]" for g
      using createPayment_payments [of key reply verify ?w0] by simp
    show ?thesis
    proof (cases "reply (gatewayCalls w) (oid ord) (totalAmount ord * 100)")
      case None
      with Some assms show ?thesis
        by (simp add: initiateRazorpayPayment_def gateway_createOrder_def Let_def
            split: option.splits)
    next
      case g: (Some g)
      from cp [of g] obtain q where "payments (fst (createPayment ?L ?w0 (oid ord)
          (o_orderNumber ord) (o_userId ord) (o_sessionId ord) ''razorpay''
          (totalAmount ord) None None (Some g))) = payments w @ [q]" by blast
      with Some g assms show ?thesis
        by (simp add: initiateRazorpayPayment_def gateway_createOrder_def Let_def
            case_prod_beta nth_append split: option.splits)
    qed
  qed
qed

lemma verifyRazorpayPayment_status:
  assumes "i < length (payments w)"
  shows "i < length (payments (fst (verifyRazorpayPayment (ledger key reply verify) w k ro rp sg)))
    \<and> (status (payments (fst (verifyRazorpayPayment (ledger key reply verify) w k ro rp sg)) ! i)
          = status (payments w ! i)
       \<or> status (payments w ! i) \<noteq> Completed
         \<and> status (payments (fst (verifyRazorpayPayment (ledger key reply verify) w k ro rp sg))
              ! i) = Completed)"
proof (cases "ledger_getPaymentByRazorpayOrderId w ro")
  case None
  with assms show ?thesis by (simp add: verifyRazorpayPayment_def)
next
  case (Some jp)
  obtain j p where jp: "jp = (j, p)" by (cases jp)
  with Some assms show ?thesis
    by (simp add: verifyRazorpayPayment_def case_prod_beta markPaymentCompleted_payments
        nth_list_update)
qed

lemma handlePaymentSuccess_status:
  assumes "i < length (payments w)"
  shows "i < length (payments (fst (handlePaymentSuccess (ledger key reply verify) w ev)))
    \<and> (status (payments (fst (handlePaymentSuccess (ledger key reply verify) w ev)) ! i)
          = status (payments w ! i)
       \<or> status (payments w ! i) \<noteq> Completed
         \<and> status (payments (fst (handlePaymentSuccess (ledger key reply verify) w ev)) ! i)
             = Completed)"
proof (cases "resolved_by (ledger key reply verify) w (se_checkoutId ev) (se_orderNumber ev)
    (Some (se_transactionId ev))")
  case None
  with assms show ?thesis by (simp add: handlePaymentSuccess_resolved)
next
  case (Some jp)
  obtain j p where jp: "jp = (j, p)" by (cases jp)
  with Some assms show ?thesis
    by (simp add: handlePaymentSuccess_resolved markPaymentCompleted_payments nth_list_update)
qed

lemma handlePaymentFailure_resolved:
  "handlePaymentFailure d st fv =
     (case resolved_by d st (fe_checkoutId fv) (fe_orderNumber fv) (fe_transactionId fv) of
        None \<Rightarrow> (st, Inl PaymentNotFound)
      | Some p \<Rightarrow>
          (orderRepo_updateOrderStatus d
             (fst (paymentRepo_markPaymentFailed d st (fst p) (fe_errorCode fv)
                     (fe_errorMessage fv) (fe_failureReason fv) (fe_webhookData fv)))
             (orderId (snd p)) PaymentFailed Failed,
           Inr (snd (paymentRepo_markPaymentFailed d st (fst p) (fe_errorCode fv)
                       (fe_errorMessage fv) (fe_failureReason fv) (fe_webhookData fv)))))"
  by (simp add: handlePaymentFailure_def resolved_by_def PaymentNotFound_def
      split: prod.splits option.splits)

lemma handlePaymentFailure_status:
  assumes "i < length (payments w)"
  shows "i < length (payments (fst (handlePaymentFailure (ledger key reply verify) w fv)))
    \<and> (status (payments (fst (handlePaymentFailure (ledger key reply verify) w fv)) ! i)
          = status (payments w ! i)
       \<or> status (payments (fst (handlePaymentFailure (ledger key reply verify) w fv)) ! i)
           = Failed)"
proof (cases "resolved_by (ledger key reply verify) w (fe_checkoutId fv) (fe_orderNumber fv)
    (fe_transactionId fv)")
  case None
  with assms show ?thesis by (simp add: handlePaymentFailure_resolved)
next
  case (Some jp)
  obtain j p where jp: "jp = (j, p)" by (cases jp)
  from resolved_by_ledger_Some [of key reply verify w _ _ _ j p] Some jp
  have "j < length (payments w)" by simp
  with Some jp assms show ?thesis
    by (simp add: handlePaymentFailure_resolved ledger_markPaymentFailed_def Let_def
        nth_list_update)
qed

lemma initiateRefund_status:
  assumes "i < length (payments w)"
  shows "i < length (payments (fst (initiateRefund (ledger key reply verify) w j a t)))
    \<and> (status (payments (fst (initiateRefund (ledger key reply verify) w j a t)) ! i)
          = status (payments w ! i)
       \<or> i = j \<and> status (payments w ! i) = Completed
         \<and> status (payments (fst (initiateRefund (ledger key reply verify) w j a t)) ! i)
             = Refunded)"
  using assms
  by (simp add: initiateRefund_def ledger_initiateRefund_def ledger_getPaymentById_def
      Let_def nth_list_update)

lemma retryPayment_status:
  assumes "i < length (payments w)"
  shows "i < length (payments (fst (retryPayment (ledger key reply verify) w k)))
    \<and> (status (payments (fst (retryPayment (ledger key reply verify) w k)) ! i)
          = status (payments w ! i)
       \<or> status (payments w ! i) \<noteq> Completed
         \<and> status (payments (fst (retryPayment (ledger key reply verify) w k)) ! i) = Pending)"
proof (cases "ledger_getPaymentByOrderId w k")
  case None
  with assms show ?thesis by (simp add: retryPayment_def)
next
  case (Some jp)
  obtain j p where jp: "jp = (j, p)" by (cases jp)
  from getPaymentByOrderId_Some [of w k j p] Some jp
  have "j < length (payments w)" "payments w ! j = p" by simp_all
  with Some jp assms show ?thesis
    by (auto simp add: retryPayment_def ledger_updatePaymentStatus_def Let_def nth_list_update)
qed

text \<open>The example worlds, evaluated.\<close>

lemma paid_world_eq:
  "paid_world =
     \<lparr>payments = [payment1\<lparr>status := Completed, transactionId := Some ''pay_9''\<rparr>],
       orders = [order1\<lparr>o_status := Confirmed, paymentStatus := Completed,
                        paymentId := Some 0\<rparr>],
       calls = [GatewayCreateOrder ''o1'' 150000, PaymentInsert 0, PaymentWrite 0,
                OrderLinkWrite ''o1'' 0, OrderStatusWrite ''o1'' PaymentPending Pending,
                PaymentWrite 0, OrderStatusWrite ''o1'' Confirmed Completed]\<rparr>"
  by (simp add: paid_world_def initiated_world_eq paid_def shop_def order1_def payment1_def
      service_defs ledger_defs)

lemma failed_world_eq:
  "failed_world =
     \<lparr>payments = [payment1\<lparr>status := Failed, errorCode := Some ''BAD_REQUEST_ERROR'',
                            failureReason := Some ''payment_failed''\<rparr>],
       orders = [order1\<lparr>o_status := PaymentFailed, paymentStatus := Failed,
                        paymentId := Some 0\<rparr>],
       calls = [GatewayCreateOrder ''o1'' 150000, PaymentInsert 0, PaymentWrite 0,
                OrderLinkWrite ''o1'' 0, OrderStatusWrite ''o1'' PaymentPending Pending,
                PaymentWrite 0, OrderStatusWrite ''o1'' PaymentFailed Failed]\<rparr>"
  by (simp add: failed_world_def initiated_world_eq declined_def shop_def order1_def
      payment1_def service_defs ledger_defs)

lemma refunded_world_eq:
  "refunded_world =
     \<lparr>payments = [payment1\<lparr>status := Refunded, transactionId := Some ''pay_9'',
                            refundAmount := Some 1500\<rparr>],
       orders = [order1\<lparr>o_status := OrderRefunded, paymentStatus := Refunded,
                        paymentId := Some 0\<rparr>],
       calls = [GatewayCreateOrder ''o1'' 150000, PaymentInsert 0, PaymentWrite 0,
                OrderLinkWrite ''o1'' 0, OrderStatusWrite ''o1'' PaymentPending Pending,
                PaymentWrite 0, OrderStatusWrite ''o1'' Confirmed Completed,
                PaymentWrite 0, OrderStatusWrite ''o1'' OrderRefunded Refunded]\<rparr>"
  by (simp add: refunded_world_def paid_world_eq shop_def order1_def payment1_def
      service_defs ledger_defs)

section \<open>The cross-entity invariant where no order has two payments\<close>

text \<open>
  Every operation keeps the invariant as long as it leaves each order with at most one
  payment: the writes to a payment and to its order go together and no other payment
  shares the order. A retry writes the payment alone, and only a payment that is not
  completed. The facts below hold for every gateway.
\<close>

lemma consistent_cong:
  "payments w' = payments w \<Longrightarrow> orders w' = orders w \<Longrightarrow> consistent w' = consistent w"
  by (simp add: consistent_def ledger_getOrderById_def)

lemma consistent_nth:
  "consistent w = (\<forall>i < length (payments w).
      \<exists>ord. ledger_getOrderById w (orderId (payments w ! i)) = Some ord
            \<and> consistent_with (payments w ! i) ord)"
  by (auto simp add: consistent_def list_all_length split: option.splits)

lemma consistent_with_status:
  "consistent_with p (ord\<lparr>o_status := s, paymentStatus := ps\<rparr>) =
     (((status p = Completed) = (s = Confirmed \<and> ps = Completed))
      \<and> (status p = Failed \<longrightarrow> s = PaymentFailed)
      \<and> (status p = Refunded \<longrightarrow> s = OrderRefunded))"
  by (simp add: consistent_with_def)

lemma consistent_with_link [simp]:
  "consistent_with p (ord\<lparr>paymentId := n\<rparr>) = consistent_with p ord"
  by (simp add: consistent_with_def)

lemma getOrderById_map:
  "(\<And>x. oid (f x) = oid x) \<Longrightarrow> orders w' = map f (orders w) \<Longrightarrow>
     ledger_getOrderById w' k = map_option f (ledger_getOrderById w k)"
  unfolding ledger_getOrderById_def by (simp add: find_map_preserved)

text \<open>The three shapes of a transition: a payment and its order written together, a
  payment that is not completed reset to pending, and a payment added for an order that
  had none.\<close>

lemma consistent_after_write:
  assumes inv: "consistent w"
    and j: "j < length (payments w)"
    and ps: "payments w' = (payments w)[j := q]"
    and same: "orderId q = orderId (payments w ! j)"
    and os: "orders w' =
      map (\<lambda>x. if oid x = orderId q then x\<lparr>o_status := s, paymentStatus := st\<rparr> else x)
        (orders w)"
    and agree: "\<And>ord. consistent_with q (ord\<lparr>o_status := s, paymentStatus := st\<rparr>)"
    and one: "distinct (map orderId (payments w))"
  shows "consistent w'"
  unfolding consistent_nth
proof (intro allI impI)
  fix i assume "i < length (payments w')"
  with ps have i: "i < length (payments w)" by simp
  let ?f = "\<lambda>x. if oid x = orderId q then x\<lparr>o_status := s, paymentStatus := st\<rparr> else x"
  have look: "ledger_getOrderById w' k = map_option ?f (ledger_getOrderById w k)" for k
    by (rule getOrderById_map [OF _ os]) simp
  from inv i obtain ord where o: "ledger_getOrderById w (orderId (payments w ! i)) = Some ord"
    and c: "consistent_with (payments w ! i) ord"
    unfolding consistent_nth by blast
  have oid: "oid ord = orderId (payments w ! i)" by (rule getOrderById_oid [OF o])
  show "\<exists>ord. ledger_getOrderById w' (orderId (payments w' ! i)) = Some ord
      \<and> consistent_with (payments w' ! i) ord"
  proof (cases "i = j")
    case True
    with ps j have "payments w' ! i = q" by simp
    moreover from True same o oid
    have "ledger_getOrderById w' (orderId q) = Some (ord\<lparr>o_status := s, paymentStatus := st\<rparr>)"
      by (simp add: look)
    ultimately show ?thesis using agree by simp
  next
    case False
    with ps j have same_p: "payments w' ! i = payments w ! i" by simp
    from one i j False have "orderId (payments w ! i) \<noteq> orderId (payments w ! j)"
      by (simp add: distinct_conv_nth)
    with same oid have "oid ord \<noteq> orderId q" by simp
    with o have "ledger_getOrderById w' (orderId (payments w ! i)) = Some ord"
      by (simp add: look)
    with same_p c show ?thesis by simp
  qed
qed

lemma consistent_after_reset:
  assumes inv: "consistent w"
    and j: "j < length (payments w)"
    and ps: "payments w' = (payments w)[j := q]"
    and same: "orderId q = orderId (payments w ! j)"
    and os: "orders w' = orders w"
    and was: "status (payments w ! j) \<noteq> Completed"
    and now: "status q = Pending"
  shows "consistent w'"
  unfolding consistent_nth
proof (intro allI impI)
  fix i assume "i < length (payments w')"
  with ps have i: "i < length (payments w)" by simp
  have look: "ledger_getOrderById w' k = ledger_getOrderById w k" for k
    using os by (simp add: ledger_getOrderById_def)
  from inv i obtain ord where o: "ledger_getOrderById w (orderId (payments w ! i)) = Some ord"
    and c: "consistent_with (payments w ! i) ord"
    unfolding consistent_nth by blast
  show "\<exists>ord. ledger_getOrderById w' (orderId (payments w' ! i)) = Some ord
      \<and> consistent_with (payments w' ! i) ord"
  proof (cases "i = j")
    case True
    with ps j have "payments w' ! i = q" by simp
    moreover from True c was now have "consistent_with q ord"
      by (simp add: consistent_with_def)
    ultimately show ?thesis using True same o by (simp add: look)
  next
    case False
    with ps j have "payments w' ! i = payments w ! i" by simp
    with o c show ?thesis by (simp add: look)
  qed
qed

lemma consistent_after_insert:
  assumes inv: "consistent w"
    and ps: "payments w' = payments w @ [q]"
    and os: "orders w' =
      map (\<lambda>x. if oid x = orderId q then x\<lparr>o_status := s, paymentStatus := st\<rparr> else x)
        (map (\<lambda>x. if oid x = orderId q then x\<lparr>paymentId := Some n\<rparr> else x) (orders w))"
    and ord: "ledger_getOrderById w (orderId q) = Some ord0"
    and agree: "\<And>ord. consistent_with q (ord\<lparr>o_status := s, paymentStatus := st\<rparr>)"
    and fresh: "orderId q \<notin> set (map orderId (payments w))"
  shows "consistent w'"
  unfolding consistent_nth
proof (intro allI impI)
  fix i assume i': "i < length (payments w')"
  let ?f = "\<lambda>x. if oid x = orderId q
                then x\<lparr>paymentId := Some n, o_status := s, paymentStatus := st\<rparr> else x"
  have os': "orders w' = map ?f (orders w)"
    unfolding os by (simp add: comp_def if_distrib cong: if_cong)
  have look: "ledger_getOrderById w' k = map_option ?f (ledger_getOrderById w k)" for k
    by (rule getOrderById_map [OF _ os']) simp
  show "\<exists>ord. ledger_getOrderById w' (orderId (payments w' ! i)) = Some ord
      \<and> consistent_with (payments w' ! i) ord"
  proof (cases "i < length (payments w)")
    case True
    with ps have same_p: "payments w' ! i = payments w ! i" by (simp add: nth_append)
    from inv True obtain ord where o: "ledger_getOrderById w (orderId (payments w ! i)) = Some ord"
      and c: "consistent_with (payments w ! i) ord"
      unfolding consistent_nth by blast
    from True have "map orderId (payments w) ! i \<in> set (map orderId (payments w))"
      by (intro nth_mem) simp
    with True have "orderId (payments w ! i) \<in> set (map orderId (payments w))" by simp
    with fresh have "orderId (payments w ! i) \<noteq> orderId q" by metis
    with getOrderById_oid [OF o] have "oid ord \<noteq> orderId q" by simp
    with o have "ledger_getOrderById w' (orderId (payments w ! i)) = Some ord"
      by (simp add: look)
    with same_p c show ?thesis by simp
  next
    case False
    with i' ps have "i = length (payments w)" by simp
    with ps have "payments w' ! i = q" by simp
    moreover from ord getOrderById_oid [OF ord]
    have "ledger_getOrderById w' (orderId q)
        = Some (ord0\<lparr>paymentId := Some n, o_status := s, paymentStatus := st\<rparr>)"
      by (simp add: look)
    moreover have "consistent_with q (ord0\<lparr>paymentId := Some n, o_status := s,
        paymentStatus := st\<rparr>)"
      using agree [of "ord0\<lparr>paymentId := Some n\<rparr>"] by simp
    ultimately show ?thesis by simp
  qed
qed

lemma map_update_same: "f q = f (xs ! j) \<Longrightarrow> map f (xs[j := q]) = map f xs"
  by (cases "j < length xs") (simp_all add: map_update list_update_same_conv list_update_beyond)

lemma markPaymentCompleted_orders [simp]:
  "orders (fst (ledger_markPaymentCompleted w i t g m x)) = orders w"
  by (simp add: ledger_markPaymentCompleted_def Let_def split: option.splits)

lemma markPaymentFailed_sel [simp]:
  "orders (fst (ledger_markPaymentFailed w i c m r x)) = orders w"
  "payments (fst (ledger_markPaymentFailed w i c m r x)) =
     (payments w)[i := (payments w ! i)\<lparr>status := Failed,
        errorCode := keep c (errorCode (payments w ! i)),
        errorMessage := keep m (errorMessage (payments w ! i)),
        failureReason := keep r (failureReason (payments w ! i)),
        metadata := keep x (metadata (payments w ! i))\<rparr>]"
  by (simp_all add: ledger_markPaymentFailed_def Let_def)

lemma initiateRefund_sel [simp]:
  "orders (fst (ledger_initiateRefund w i a t)) = orders w"
  "payments (fst (ledger_initiateRefund w i a t)) =
     (payments w)[i := (payments w ! i)\<lparr>status := Refunded, refundAmount := Some a,
        refundTransactionId := keep t (refundTransactionId (payments w ! i))\<rparr>]"
  by (simp_all add: ledger_initiateRefund_def Let_def)

lemma updatePaymentStatus_sel [simp]:
  "orders (ledger_updatePaymentStatus w i s) = orders w"
  "payments (ledger_updatePaymentStatus w i s) =
     (payments w)[i := (payments w ! i)\<lparr>status := s\<rparr>]"
  by (simp_all add: ledger_updatePaymentStatus_def)

text \<open>The operations one by one; the order ids of the payments never change.\<close>

lemma completion_preserves:
  assumes inv: "consistent w"
    and j: "j < length (payments w)"
    and one: "distinct (map orderId (payments w))"
  shows "consistent (ledger_updateOrderStatus (fst (ledger_markPaymentCompleted w j t g m x))
           (orderId (payments w ! j)) Confirmed Completed)"
    (is "consistent ?w'")
proof (cases "status (payments w ! j) = Completed")
  case True
  let ?q = "payments w ! j"
  have "payments ?w' = (payments w)[j := ?q]"
    using True by (simp add: markPaymentCompleted_payments)
  moreover have "consistent_with ?q (ord\<lparr>o_status := Confirmed, paymentStatus := Completed\<rparr>)"
    for ord using True by (simp add: consistent_with_status)
  ultimately show ?thesis
    using inv j one by (intro consistent_after_write [where w = w and j = j and w' = ?w' and q = ?q and s = Confirmed and st = Completed]) simp_all
next
  case False
  let ?q = "(payments w ! j)\<lparr>status := Completed, transactionId := Some t,
    gatewayTransactionId := keep g (gatewayTransactionId (payments w ! j)),
    p_method := keep m (p_method (payments w ! j)),
    metadata := keep x (metadata (payments w ! j))\<rparr>"
  have "payments ?w' = (payments w)[j := ?q]"
    using False j by (simp add: markPaymentCompleted_payments)
  moreover have "consistent_with ?q (ord\<lparr>o_status := Confirmed, paymentStatus := Completed\<rparr>)"
    for ord by (simp add: consistent_with_status)
  ultimately show ?thesis
    using inv j one by (intro consistent_after_write [where w = w and j = j and w' = ?w' and q = ?q and s = Confirmed and st = Completed]) simp_all
qed

lemma completion_ids:
  "map orderId (payments (fst (ledger_markPaymentCompleted w j t g m x)))
     = map orderId (payments w)"
  by (simp add: markPaymentCompleted_payments map_update_same)

lemma verify_preserves:
  assumes "consistent w" and "distinct (map orderId (payments w))"
  shows "consistent (fst (verifyRazorpayPayment (ledger key reply verify) w k ro rp sg))"
proof (cases "ledger_getPaymentByRazorpayOrderId w ro")
  case None
  with assms show ?thesis by (simp add: verifyRazorpayPayment_def)
next
  case (Some jp)
  obtain j p where jp: "jp = (j, p)" by (cases jp)
  from getPaymentByRazorpayOrderId_Some [of w ro j p] Some jp
  have j: "j < length (payments w)" and p: "payments w ! j = p" by simp_all
  from completion_preserves [OF assms(1) j assms(2), of rp "Some ro" "Some ''razorpay''" "Some sg"]
    Some jp p assms(1)
  show ?thesis by (simp add: verifyRazorpayPayment_def case_prod_beta)
qed

lemma verify_ids:
  "map orderId (payments (fst (verifyRazorpayPayment (ledger key reply verify) w k ro rp sg)))
     = map orderId (payments w)"
  by (simp add: verifyRazorpayPayment_def case_prod_beta completion_ids split: option.splits)

lemma success_preserves:
  assumes "consistent w" and "distinct (map orderId (payments w))"
  shows "consistent (fst (handlePaymentSuccess (ledger key reply verify) w ev))"
proof (cases "resolved_by (ledger key reply verify) w (se_checkoutId ev) (se_orderNumber ev)
    (Some (se_transactionId ev))")
  case None
  with assms show ?thesis by (simp add: handlePaymentSuccess_resolved)
next
  case (Some jp)
  obtain j p where jp: "jp = (j, p)" by (cases jp)
  from resolved_by_ledger_Some [of key reply verify w _ _ _ j p] Some jp
  have j: "j < length (payments w)" and p: "payments w ! j = p" by simp_all
  from completion_preserves [OF assms(1) j assms(2), of "se_transactionId ev"
      "se_gatewayTransactionId ev" "se_method ev" "se_webhookData ev"]
    Some jp p assms(1)
  show ?thesis by (simp add: handlePaymentSuccess_resolved)
qed

lemma success_ids:
  "map orderId (payments (fst (handlePaymentSuccess (ledger key reply verify) w ev)))
     = map orderId (payments w)"
  by (simp add: handlePaymentSuccess_resolved completion_ids split: option.splits)

lemma failure_preserves:
  assumes "consistent w" and "distinct (map orderId (payments w))"
  shows "consistent (fst (handlePaymentFailure (ledger key reply verify) w fv))"
proof (cases "resolved_by (ledger key reply verify) w (fe_checkoutId fv) (fe_orderNumber fv)
    (fe_transactionId fv)")
  case None
  with assms show ?thesis by (simp add: handlePaymentFailure_resolved)
next
  case (Some jp)
  obtain j p where jp: "jp = (j, p)" by (cases jp)
  from resolved_by_ledger_Some [of key reply verify w _ _ _ j p] Some jp
  have j: "j < length (payments w)" and p: "payments w ! j = p" by simp_all
  let ?q = "p\<lparr>status := Failed,
    errorCode := keep (fe_errorCode fv) (errorCode p),
    errorMessage := keep (fe_errorMessage fv) (errorMessage p),
    failureReason := keep (fe_failureReason fv) (failureReason p),
    metadata := keep (fe_webhookData fv) (metadata p)\<rparr>"
  let ?w' = "fst (handlePaymentFailure (ledger key reply verify) w fv)"
  have ps: "payments ?w' = (payments w)[j := ?q]"
    using Some jp p by (simp add: handlePaymentFailure_resolved)
  have os: "orders ?w' =
      map (\<lambda>x. if oid x = orderId ?q then x\<lparr>o_status := PaymentFailed, paymentStatus := Failed\<rparr>
                else x) (orders w)"
    using Some jp by (simp add: handlePaymentFailure_resolved)
  have "consistent_with ?q (ord\<lparr>o_status := PaymentFailed, paymentStatus := Failed\<rparr>)" for ord
    by (simp add: consistent_with_status)
  with assms j ps os p show ?thesis
    by (intro consistent_after_write [where w = w and j = j and w' = ?w' and q = ?q and s = PaymentFailed and st = Failed]) simp_all
qed

lemma failure_ids:
  "map orderId (payments (fst (handlePaymentFailure (ledger key reply verify) w fv)))
     = map orderId (payments w)"
  by (simp add: handlePaymentFailure_resolved map_update_same split: option.splits)

lemma refund_preserves:
  assumes "consistent w" and "distinct (map orderId (payments w))"
  shows "consistent (fst (initiateRefund (ledger key reply verify) w i a t))"
proof (cases "i < length (payments w) \<and> status (payments w ! i) = Completed
    \<and> \<not> a > amount (payments w ! i)")
  case False
  with assms show ?thesis
    by (auto simp add: initiateRefund_def ledger_getPaymentById_def)
next
  case True
  let ?p = "payments w ! i"
  let ?q = "?p\<lparr>status := Refunded, refundAmount := Some a,
    refundTransactionId := keep t (refundTransactionId ?p)\<rparr>"
  let ?w' = "fst (initiateRefund (ledger key reply verify) w i a t)"
  have ps: "payments ?w' = (payments w)[i := ?q]"
    using True by (simp add: initiateRefund_def ledger_getPaymentById_def case_prod_beta)
  have os: "orders ?w' =
      map (\<lambda>x. if oid x = orderId ?q then x\<lparr>o_status := OrderRefunded, paymentStatus := Refunded\<rparr>
                else x) (orders w)"
    using True by (simp add: initiateRefund_def ledger_getPaymentById_def case_prod_beta)
  have "consistent_with ?q (ord\<lparr>o_status := OrderRefunded, paymentStatus := Refunded\<rparr>)" for ord
    by (simp add: consistent_with_status)
  with assms True ps os show ?thesis
    by (intro consistent_after_write [where w = w and j = i and w' = ?w' and q = ?q and s = OrderRefunded and st = Refunded]) simp_all
qed

lemma refund_ids:
  "map orderId (payments (fst (initiateRefund (ledger key reply verify) w i a t)))
     = map orderId (payments w)"
  by (simp add: initiateRefund_def ledger_getPaymentById_def case_prod_beta map_update_same)

lemma retry_preserves:
  assumes "consistent w"
  shows "consistent (fst (retryPayment (ledger key reply verify) w k))"
proof (cases "ledger_getPaymentByOrderId w k")
  case None
  with assms show ?thesis by (simp add: retryPayment_def)
next
  case (Some jp)
  obtain j p where jp: "jp = (j, p)" by (cases jp)
  from getPaymentByOrderId_Some [of w k j p] Some jp
  have j: "j < length (payments w)" and p: "payments w ! j = p" by simp_all
  show ?thesis
  proof (cases "status p = Completed")
    case True
    with Some jp assms show ?thesis by (simp add: retryPayment_def)
  next
    case False
    let ?w' = "fst (retryPayment (ledger key reply verify) w k)"
    have ps: "payments ?w' = (payments w)[j := p\<lparr>status := Pending\<rparr>]"
      and os: "orders ?w' = orders w"
      using Some jp False p by (simp_all add: retryPayment_def Let_def)
    from assms j ps _ os show ?thesis
      by (rule consistent_after_reset) (simp_all add: p False)
  qed
qed

lemma retry_ids:
  "map orderId (payments (fst (retryPayment (ledger key reply verify) w k)))
     = map orderId (payments w)"
proof (cases "ledger_getPaymentByOrderId w k")
  case None
  then show ?thesis by (simp add: retryPayment_def)
next
  case (Some jp)
  obtain j p where jp: "jp = (j, p)" by (cases jp)
  from getPaymentByOrderId_Some [of w k j p] Some jp
  have "payments w ! j = p" by simp
  with Some jp show ?thesis
    by (simp add: retryPayment_def Let_def map_update_same)
qed

lemma createPayment_shape:
  "\<exists>q. payments (fst (createPayment (ledger key reply verify) w k num u s pr amt m st g))
          = payments w @ [q]
       \<and> orderId q = k
       \<and> status q = (if st = Some Completed then Completed else Pending)
       \<and> orders (fst (createPayment (ledger key reply verify) w k num u s pr amt m st g))
          = map (\<lambda>x. if oid x = k then x\<lparr>paymentId := Some (length (payments w))\<rparr> else x)
              (orders w)"
  by (simp add: createPayment_def ledger_createPayment_def ledger_updatePayment_def
      ledger_markPaymentCompleted_def ledger_getPaymentById_def Let_def
      split: prod.splits)

lemma cod_preserves:
  assumes inv: "consistent w"
  shows "consistent (fst (processCodPayment (ledger key reply verify) w k))"
proof (cases "ledger_getOrderById w k")
  case None
  with inv show ?thesis by (simp add: processCodPayment_def)
next
  case (Some ord)
  note o = this
  have k: "oid ord = k" by (rule getOrderById_oid [OF o])
  show ?thesis
  proof (cases "ledger_getPaymentByOrderId w k")
    case (Some p)
    with o inv show ?thesis by (simp add: processCodPayment_def)
  next
    case None
    let ?L = "ledger key reply verify"
    let ?cp = "createPayment ?L w k (o_orderNumber ord) (o_userId ord) (o_sessionId ord)
      ''cod'' (totalAmount ord) (Some ''cod'') (Some Completed) None"
    let ?w' = "fst (processCodPayment ?L w k)"
    from createPayment_shape [of key reply verify w k "o_orderNumber ord" "o_userId ord"
        "o_sessionId ord" "''cod''" "totalAmount ord" "Some ''cod''" "Some Completed" None]
    obtain q where ps: "payments (fst ?cp) = payments w @ [q]" and qk: "orderId q = k"
      and sq: "status q = Completed"
      and os: "orders (fst ?cp)
        = map (\<lambda>x. if oid x = k then x\<lparr>paymentId := Some (length (payments w))\<rparr> else x)
            (orders w)"
      by auto
    have w': "?w' = ledger_updateOrderStatus (fst ?cp) k Confirmed Completed"
      using o None k by (simp add: processCodPayment_def case_prod_beta)
    have ps': "payments ?w' = payments w @ [q]"
      unfolding w' using ps by simp
    have os': "orders ?w' =
        map (\<lambda>x. if oid x = orderId q then x\<lparr>o_status := Confirmed, paymentStatus := Completed\<rparr>
                  else x)
          (map (\<lambda>x. if oid x = orderId q then x\<lparr>paymentId := Some (length (payments w))\<rparr>
                     else x) (orders w))"
      unfolding w' using os qk by simp
    have fresh: "orderId q \<notin> set (map orderId (payments w))"
      using None qk by (auto simp add: ledger_getPaymentByOrderId_def find_doc_None)
    have agree: "consistent_with q (x\<lparr>o_status := Confirmed, paymentStatus := Completed\<rparr>)" for x
      using sq by (simp add: consistent_with_status)
    from inv ps' os' _ agree fresh show ?thesis
      by (rule consistent_after_insert) (simp add: qk o)
  qed
qed

lemma cod_ids:
  "\<exists>ks. map orderId (payments (fst (processCodPayment (ledger key reply verify) w k)))
        = map orderId (payments w) @ ks"
proof -
  let ?L = "ledger key reply verify"
  show ?thesis
  proof (cases "ledger_getOrderById w k")
    case None
    then show ?thesis by (simp add: processCodPayment_def)
  next
    case (Some ord)
    from createPayment_payments [of key reply verify w "oid ord" "o_orderNumber ord"
        "o_userId ord" "o_sessionId ord" "''cod''" "totalAmount ord" "Some ''cod''"
        "Some Completed" None]
    obtain q where "payments (fst (createPayment ?L w (oid ord) (o_orderNumber ord)
        (o_userId ord) (o_sessionId ord) ''cod'' (totalAmount ord) (Some ''cod'')
        (Some Completed) None)) = payments w @ [q]" by blast
    with Some show ?thesis
      by (simp add: processCodPayment_def case_prod_beta split: option.splits)
  qed
qed

lemma initiate_cases:
  "(payments (fst (initiateRazorpayPayment (ledger key reply verify) w k)) = payments w
      \<and> orders (fst (initiateRazorpayPayment (ledger key reply verify) w k)) = orders w)
   \<or> (\<exists>q ord. ledger_getOrderById w k = Some ord \<and> orderId q = k \<and> status q = Pending
        \<and> payments (fst (initiateRazorpayPayment (ledger key reply verify) w k))
            = payments w @ [q]
        \<and> orders (fst (initiateRazorpayPayment (ledger key reply verify) w k))
            = map (\<lambda>x. if oid x = k then x\<lparr>o_status := PaymentPending, paymentStatus := Pending\<rparr>
                        else x)
                (map (\<lambda>x. if oid x = k then x\<lparr>paymentId := Some (length (payments w))\<rparr>
                           else x) (orders w)))"
proof -
  let ?L = "ledger key reply verify"
  let ?w' = "fst (initiateRazorpayPayment ?L w k)"
  show ?thesis
  proof (cases "ledger_getOrderById w k")
    case None
    then show ?thesis by (simp add: initiateRazorpayPayment_def)
  next
    case (Some ord)
    have k: "oid ord = k" by (rule getOrderById_oid [OF Some])
    let ?amt = "totalAmount ord * 100"
    let ?w0 = "logged (GatewayCreateOrder k ?amt) w"
    show ?thesis
    proof (cases "case ledger_getPaymentByOrderId w k of None \<Rightarrow> False
        | Some p \<Rightarrow> truthy (razorpayOrderId (snd p))")
      case True
      with Some show ?thesis
        by (auto simp add: initiateRazorpayPayment_def Let_def split: option.splits)
    next
      case False
      show ?thesis
      proof (cases "reply (gatewayCalls w) k ?amt")
        case None
        with Some False k show ?thesis
          by (auto simp add: initiateRazorpayPayment_def gateway_createOrder_def Let_def
              split: option.splits)
      next
        case g: (Some g)
        let ?cp = "createPayment ?L ?w0 k (o_orderNumber ord) (o_userId ord) (o_sessionId ord)
          ''razorpay'' (totalAmount ord) None None (Some g)"
        from createPayment_shape [of key reply verify ?w0 k "o_orderNumber ord" "o_userId ord"
            "o_sessionId ord" "''razorpay''" "totalAmount ord" None None "Some g"]
        obtain q where ps: "payments (fst ?cp) = payments w @ [q]" and qk: "orderId q = k"
          and sq: "status q = Pending"
          and os: "orders (fst ?cp)
            = map (\<lambda>x. if oid x = k then x\<lparr>paymentId := Some (length (payments w))\<rparr> else x)
                (orders w)"
          by auto
        have w': "?w' = ledger_updateOrderStatus (fst ?cp) k PaymentPending Pending"
          using Some False k g
          by (auto simp add: initiateRazorpayPayment_def gateway_createOrder_def Let_def
              case_prod_beta split: option.splits)
        have "payments ?w' = payments w @ [q]"
          unfolding w' using ps by simp
        moreover have "orders ?w'
            = map (\<lambda>x. if oid x = k then x\<lparr>o_status := PaymentPending, paymentStatus := Pending\<rparr>
                        else x)
                (map (\<lambda>x. if oid x = k then x\<lparr>paymentId := Some (length (payments w))\<rparr>
                           else x) (orders w))"
          unfolding w' using os by simp
        ultimately show ?thesis using Some qk sq by blast
      qed
    qed
  qed
qed

lemma initiate_preserves:
  assumes inv: "consistent w"
    and one: "distinct (map orderId
      (payments (fst (initiateRazorpayPayment (ledger key reply verify) w k))))"
  shows "consistent (fst (initiateRazorpayPayment (ledger key reply verify) w k))"
proof -
  let ?w' = "fst (initiateRazorpayPayment (ledger key reply verify) w k)"
  from initiate_cases [of key reply verify w k]
  consider "payments ?w' = payments w \<and> orders ?w' = orders w"
    | q ord where "ledger_getOrderById w k = Some ord" "orderId q = k" "status q = Pending"
        "payments ?w' = payments w @ [q]"
        "orders ?w'
          = map (\<lambda>x. if oid x = k then x\<lparr>o_status := PaymentPending, paymentStatus := Pending\<rparr>
                      else x)
              (map (\<lambda>x. if oid x = k then x\<lparr>paymentId := Some (length (payments w))\<rparr>
                         else x) (orders w))"
    by blast
  then show ?thesis
  proof cases
    case 1
    then have "consistent ?w' = consistent w" by (intro consistent_cong) simp_all
    with inv show ?thesis by simp
  next
    case 2
    from one 2(4) have fresh: "orderId q \<notin> set (map orderId (payments w))" by simp
    have agree: "consistent_with q (x\<lparr>o_status := PaymentPending, paymentStatus := Pending\<rparr>)"
      for x using 2(3) by (simp add: consistent_with_status)
    have os: "orders ?w'
        = map (\<lambda>x. if oid x = orderId q
                    then x\<lparr>o_status := PaymentPending, paymentStatus := Pending\<rparr> else x)
            (map (\<lambda>x. if oid x = orderId q
                       then x\<lparr>paymentId := Some (length (payments w))\<rparr> else x) (orders w))"
      unfolding 2(2) by (rule 2(5))
    have ord: "ledger_getOrderById w (orderId q) = Some ord"
      unfolding 2(2) by (rule 2(1))
    from inv 2(4) os ord agree fresh show ?thesis
      by (rule consistent_after_insert)
  qed
qed

lemma initiate_ids:
  "\<exists>ks. map orderId (payments (fst (initiateRazorpayPayment (ledger key reply verify) w k)))
        = map orderId (payments w) @ ks"
proof -
  let ?w' = "fst (initiateRazorpayPayment (ledger key reply verify) w k)"
  from initiate_cases [of key reply verify w k]
  consider "payments ?w' = payments w" | q where "payments ?w' = payments w @ [q]"
    by blast
  then show ?thesis by cases simp_all
qed

text \<open>One operation, and then any sequence of operations, keeps the invariant when it
  leaves each order with at most one payment.\<close>

theorem step_preserves_consistency:
  assumes inv: "consistent w"
    and one: "distinct (map orderId (payments (step (ledger key reply verify) w x)))"
  shows "consistent (step (ledger key reply verify) w x)"
proof (cases x)
  case (ProcessCodPayment k)
  with inv show ?thesis by (simp add: cod_preserves)
next
  case (InitiateGatewayPayment k)
  with inv one show ?thesis by (simp add: initiate_preserves)
next
  case (VerifyGatewayPayment k ro rp sg)
  with inv one show ?thesis by (simp add: verify_preserves verify_ids)
next
  case (HandlePaymentSuccess ev)
  with inv one show ?thesis by (simp add: success_preserves success_ids)
next
  case (HandlePaymentFailure fv)
  with inv one show ?thesis by (simp add: failure_preserves failure_ids)
next
  case (InitiateRefund i a t)
  with inv one show ?thesis by (simp add: refund_preserves refund_ids)
next
  case (RetryPayment k)
  with inv show ?thesis by (simp add: retry_preserves)
qed

lemma step_ids:
  "\<exists>ks. map orderId (payments (step (ledger key reply verify) w x))
        = map orderId (payments w) @ ks"
proof (cases x)
  case (ProcessCodPayment k)
  with cod_ids [of key reply verify w k] show ?thesis by simp
next
  case (InitiateGatewayPayment k)
  with initiate_ids [of key reply verify w k] show ?thesis by simp
qed (simp_all add: verify_ids success_ids failure_ids refund_ids retry_ids)

lemma run_ids:
  "\<exists>ks. map orderId (payments (run (ledger key reply verify) w xs))
        = map orderId (payments w) @ ks"
proof (induction xs arbitrary: w)
  case Nil
  then show ?case by simp
next
  case (Cons x xs)
  from step_ids [of key reply verify w x] obtain ks
    where a: "map orderId (payments (step (ledger key reply verify) w x))
        = map orderId (payments w) @ ks" by blast
  from Cons.IH [of "step (ledger key reply verify) w x"] obtain ks'
    where "map orderId (payments (run (ledger key reply verify)
        (step (ledger key reply verify) w x) xs))
        = map orderId (payments (step (ledger key reply verify) w x)) @ ks'" by blast
  with a show ?case by simp
qed

theorem runs_preserve_consistency:
  assumes inv: "consistent w"
    and one: "distinct (map orderId (payments (run (ledger key reply verify) w xs)))"
  shows "consistent (run (ledger key reply verify) w xs)"
  using assms
proof (induction xs arbitrary: w)
  case Nil
  then show ?case by simp
next
  case (Cons x xs)
  let ?L = "ledger key reply verify"
  from run_ids [of key reply verify "step ?L w x" xs] obtain ks
    where "map orderId (payments (run ?L (step ?L w x) xs))
        = map orderId (payments (step ?L w x)) @ ks" by blast
  with Cons.prems(2) have "distinct (map orderId (payments (step ?L w x)))" by simp
  with Cons.prems(1) have "consistent (step ?L w x)" by (rule step_preserves_consistency)
  with Cons.IH [of "step ?L w x"] Cons.prems(2) show ?case by simp
qed

text \<open>A run of the example: a checkout, a failed attempt, a retry, the success webhook and
  a refund, all for the one payment of the order.\<close>

lemma example_run_is_consistent:
  "consistent (run shop world0
     [InitiateGatewayPayment ''o1'', HandlePaymentFailure declined, RetryPayment ''o1'',
      HandlePaymentSuccess paid, InitiateRefund 0 1500 None])"
proof -
  have start: "consistent world0"
    by (simp add: consistent_def world0_def)
  have one: "distinct (map orderId (payments (run shop world0
     [InitiateGatewayPayment ''o1'', HandlePaymentFailure declined, RetryPayment ''o1'',
      HandlePaymentSuccess paid, InitiateRefund 0 1500 None])))"
    by (simp add: world0_def shop_def order1_def paid_def declined_def
        service_defs ledger_defs)
  from start one show ?thesis
    unfolding shop_def by (rule runs_preserve_consistency)
qed

section \<open>What does hold of completed payments and of repeated checkouts\<close>

text \<open>
  A completed payment stays completed under \<^verbatim>\<open>processCodPayment\<close>,
  \<^verbatim>\<open>initiateRazorpayPayment\<close>, \<^verbatim>\<open>verifyRazorpayPayment\<close>, \<^verbatim>\<open>handlePaymentSuccess\<close> and
  \<^verbatim>\<open>retryPayment\<close>; it leaves that status only to refunded, by \<^verbatim>\<open>initiateRefund\<close> for
  this payment, or to failed, by \<^verbatim>\<open>handlePaymentFailure\<close>. A refunded payment stays
  refunded under \<^verbatim>\<open>initiateRefund\<close>, \<^verbatim>\<open>processCodPayment\<close> and
  \<^verbatim>\<open>initiateRazorpayPayment\<close>.
\<close>

theorem completed_payment_transitions:
  "(i < length (payments w) \<and> status (payments w ! i) = Completed \<longrightarrow>
      i < length (payments (step (ledger key reply verify) w x))
      \<and> (status (payments (step (ledger key reply verify) w x) ! i) = Completed
         \<or> status (payments (step (ledger key reply verify) w x) ! i) = Refunded
           \<and> (\<exists>a t. x = InitiateRefund i a t)
         \<or> status (payments (step (ledger key reply verify) w x) ! i) = Failed
           \<and> (\<exists>fv. x = HandlePaymentFailure fv)))
   \<and> (i < length (payments w) \<and> status (payments w ! i) = Refunded
        \<and> (\<exists>k j a t. x = ProcessCodPayment k \<or> x = InitiateGatewayPayment k
                      \<or> x = InitiateRefund j a t) \<longrightarrow>
      i < length (payments (step (ledger key reply verify) w x))
      \<and> status (payments (step (ledger key reply verify) w x) ! i) = Refunded)"
proof -
  let ?L = "ledger key reply verify"
  have a: "i < length (payments (step ?L w x))
      \<and> (status (payments (step ?L w x) ! i) = Completed
         \<or> status (payments (step ?L w x) ! i) = Refunded \<and> (\<exists>a t. x = InitiateRefund i a t)
         \<or> status (payments (step ?L w x) ! i) = Failed \<and> (\<exists>fv. x = HandlePaymentFailure fv))"
    if i: "i < length (payments w)" and c: "status (payments w ! i) = Completed"
  proof (cases x)
    case (ProcessCodPayment k)
    with processCodPayment_keeps [OF i, of key reply verify k] c show ?thesis by simp
  next
    case (InitiateGatewayPayment k)
    with initiateRazorpayPayment_keeps [OF i, of key reply verify k] c show ?thesis by simp
  next
    case (VerifyGatewayPayment k ro rp sg)
    with verifyRazorpayPayment_status [OF i, of key reply verify k ro rp sg] c
    show ?thesis by auto
  next
    case (HandlePaymentSuccess ev)
    with handlePaymentSuccess_status [OF i, of key reply verify ev] c show ?thesis by auto
  next
    case (HandlePaymentFailure fv)
    with handlePaymentFailure_status [OF i, of key reply verify fv] c show ?thesis by auto
  next
    case (InitiateRefund j a t)
    with initiateRefund_status [OF i, of key reply verify j a t] c show ?thesis by auto
  next
    case (RetryPayment k)
    with retryPayment_status [OF i, of key reply verify k] c show ?thesis by auto
  qed
  have b: "i < length (payments (step ?L w x)) \<and> status (payments (step ?L w x) ! i) = Refunded"
    if i: "i < length (payments w)" and r: "status (payments w ! i) = Refunded"
      and x: "\<exists>k j a t. x = ProcessCodPayment k \<or> x = InitiateGatewayPayment k
                      \<or> x = InitiateRefund j a t"
  proof -
    from x consider k where "x = ProcessCodPayment k" | k where "x = InitiateGatewayPayment k"
      | j a t where "x = InitiateRefund j a t" by blast
    then show ?thesis
    proof cases
      case 1
      with processCodPayment_keeps [OF i, of key reply verify k] r show ?thesis by simp
    next
      case 2
      with initiateRazorpayPayment_keeps [OF i, of key reply verify k] r show ?thesis by simp
    next
      case 3
      with initiateRefund_status [OF i, of key reply verify j a t] r show ?thesis by auto
    qed
  qed
  from a b show ?thesis by blast
qed

text \<open>
  A retry and a repeated success webhook leave the completed payment of the example
  completed.
\<close>

theorem completed_payment_transitions_witness:
  "status (payments (step shop paid_world (RetryPayment ''o1'')) ! 0) = Completed
   \<and> status (payments (step shop paid_world (HandlePaymentSuccess paid)) ! 0) = Completed"
proof -
  have pre: "0 < length (payments paid_world) \<and> status (payments paid_world ! 0) = Completed"
    by (simp add: paid_world_eq)
  from pre completed_payment_transitions
    [of 0 paid_world "''rzp_key''" "\<lambda>n r a. Some (''gw_'' @ id_text (Suc n))"
      "\<lambda>ro rp sg. sg = ''good''" "RetryPayment ''o1''"]
    completed_payment_transitions
    [of 0 paid_world "''rzp_key''" "\<lambda>n r a. Some (''gw_'' @ id_text (Suc n))"
      "\<lambda>ro rp sg. sg = ''good''" "HandlePaymentSuccess paid"]
  show ?thesis unfolding shop_def by simp
qed

text \<open>
  For arbitrary collaborators, when the payment that the lookup by order returns has a
  gateway order id, \<^verbatim>\<open>initiateRazorpayPayment\<close> returns that id and the checkout parameters
  in the state it was given: no adapter call and no ledger write. On the ledgers, when
  every payment of the order carries a gateway order id (none yet, or a checkout under
  way) and the adapter's ids are non-empty, a first call that returns is followed by a
  second call that returns the same result and changes nothing, and the adapter's create
  operation has run at most once.
\<close>

theorem no_double_remote_order:
  "(\<forall>ord p. orderRepo_getOrderById d st k = Some ord
        \<and> paymentRepo_getPaymentByOrderId d st k = Some p
        \<and> truthy (razorpayOrderId (snd p)) \<longrightarrow>
      initiateRazorpayPayment d st k =
        (st, Inr \<lparr>co_paymentId = fst p,
                  co_razorpayOrderId = val (razorpayOrderId (snd p)),
                  co_razorpayKeyId = RAZORPAY_KEY_ID d,
                  co_amount = totalAmount ord * 100,
                  co_currency = ''INR'',
                  co_orderNumber = o_orderNumber ord\<rparr>))
   \<and> (\<forall>w1 r1. (\<forall>p \<in> set (payments w). orderId p = k \<longrightarrow> truthy (razorpayOrderId p))
        \<and> (\<forall>n r a g. reply n r a = Some g \<longrightarrow> g \<noteq> [])
        \<and> initiateRazorpayPayment (ledger key reply verify) w k = (w1, Inr r1) \<longrightarrow>
      initiateRazorpayPayment (ledger key reply verify) w1 k = (w1, Inr r1)
        \<and> gatewayCalls w1 \<le> Suc (gatewayCalls w))"
proof -
  have a: "\<forall>ord p. orderRepo_getOrderById d st k = Some ord
        \<and> paymentRepo_getPaymentByOrderId d st k = Some p
        \<and> truthy (razorpayOrderId (snd p)) \<longrightarrow>
      initiateRazorpayPayment d st k =
        (st, Inr \<lparr>co_paymentId = fst p,
                  co_razorpayOrderId = val (razorpayOrderId (snd p)),
                  co_razorpayKeyId = RAZORPAY_KEY_ID d,
                  co_amount = totalAmount ord * 100,
                  co_currency = ''INR'',
                  co_orderNumber = o_orderNumber ord\<rparr>)"
    by (simp add: initiateRazorpayPayment_def)
  have b: "initiateRazorpayPayment (ledger key reply verify) w1 k = (w1, Inr r1)
        \<and> gatewayCalls w1 \<le> Suc (gatewayCalls w)"
    if tagged: "\<forall>p \<in> set (payments w). orderId p = k \<longrightarrow> truthy (razorpayOrderId p)"
      and ids: "\<forall>n r a g. reply n r a = Some g \<longrightarrow> g \<noteq> []"
      and first: "initiateRazorpayPayment (ledger key reply verify) w k = (w1, Inr r1)"
    for w1 r1
  proof -
    let ?L = "ledger key reply verify"
    from first obtain ord where o: "ledger_getOrderById w k = Some ord"
      by (auto simp add: initiateRazorpayPayment_def split: option.splits)
    have k: "oid ord = k" by (rule getOrderById_oid [OF o])
    show ?thesis
    proof (cases "ledger_getPaymentByOrderId w k")
      case (Some ip)
      obtain i p where ip: "ip = (i, p)" by (cases ip)
      from getPaymentByOrderId_Some [of w k i p] Some ip
      have "i < length (payments w)" "payments w ! i = p" "orderId p = k" by simp_all
      then have "p \<in> set (payments w)" by auto
      with tagged \<open>orderId p = k\<close> have t: "truthy (razorpayOrderId p)" by blast
      from first o Some ip t have "w1 = w"
        by (simp add: initiateRazorpayPayment_def)
      with first show ?thesis by simp
    next
      case None
      let ?amt = "totalAmount ord * 100"
      from first o None k obtain g where g: "reply (gatewayCalls w) k ?amt = Some g"
        by (auto simp add: initiateRazorpayPayment_def gateway_createOrder_def
            split: option.splits)
      with ids have ne: "g \<noteq> []" by blast
      define n where "n = length (payments w)"
      define doc where "doc = \<lparr>orderId = k, orderNumber = o_orderNumber ord,
        userId = o_userId ord, sessionId = o_sessionId ord, provider = ''razorpay'',
        amount = totalAmount ord, p_method = None, status = Pending,
        razorpayOrderId = None, checkoutId = None, checkoutUrl = None, transactionId = None,
        gatewayTransactionId = None, errorCode = None, errorMessage = None,
        failureReason = None, refundAmount = None, refundTransactionId = None,
        metadata = None\<rparr>"
      define w0 where "w0 = logged (GatewayCreateOrder k ?amt) w"
      define w2 where "w2 = \<lparr>payments = payments w0 @ [doc\<lparr>razorpayOrderId := Some g\<rparr>],
        orders = map (\<lambda>x. if oid x = k then x\<lparr>paymentId := Some n\<rparr> else x) (orders w0),
        calls = calls w0 @ [PaymentInsert n, PaymentWrite n, OrderLinkWrite k n]\<rparr>"
      define r where "r = \<lparr>co_paymentId = n, co_razorpayOrderId = g,
        co_razorpayKeyId = key, co_amount = ?amt, co_currency = ''INR'',
        co_orderNumber = o_orderNumber ord\<rparr>"
      have cp: "createPayment ?L w0 k (o_orderNumber ord) (o_userId ord) (o_sessionId ord)
          ''razorpay'' (totalAmount ord) None None (Some g) = (w2, (n, doc))"
        using ne by (simp add: createPayment_gateway n_def doc_def w2_def w0_def Let_def)
      have res: "initiateRazorpayPayment ?L w k
          = (ledger_updateOrderStatus w2 k PaymentPending Pending, Inr r)"
        using o None k g cp
        by (simp add: initiateRazorpayPayment_def gateway_createOrder_def w0_def r_def)
      with first have w1: "w1 = ledger_updateOrderStatus w2 k PaymentPending Pending"
        and r1: "r1 = r" by simp_all
      have ps: "payments w1 = payments w @ [doc\<lparr>razorpayOrderId := Some g\<rparr>]"
        by (simp add: w1 w2_def w0_def)
      have look: "ledger_getPaymentByOrderId w1 k = Some (n, doc\<lparr>razorpayOrderId := Some g\<rparr>)"
        using None
        by (simp add: ledger_getPaymentByOrderId_def ps find_doc_append n_def doc_def)
      have o2: "ledger_getOrderById w2 k = Some (ord\<lparr>paymentId := Some n\<rparr>)"
      proof -
        have "ledger_getOrderById w2 k = ledger_getOrderById (ledger_updateOrderPaymentId w k n) k"
          by (simp add: ledger_getOrderById_def w2_def w0_def)
        then show ?thesis using o k by (simp add: getOrderById_updateOrderPaymentId)
      qed
      have o1: "ledger_getOrderById w1 k
          = Some (ord\<lparr>o_status := PaymentPending, paymentStatus := Pending,
                      paymentId := Some n\<rparr>)"
        using o2 k by (simp add: w1 getOrderById_updateOrderStatus)
      have again: "initiateRazorpayPayment ?L w1 k = (w1, Inr r)"
        using o1 look ne
        by (simp add: initiateRazorpayPayment_def truthy_def val_def r_def)
      have calls: "gatewayCalls w1 = Suc (gatewayCalls w)"
        by (simp add: gatewayCalls_def w1 w2_def w0_def)
      from again calls r1 show ?thesis by simp
    qed
  qed
  from a b show ?thesis by blast
qed

text \<open>
  Two checkouts for the order of the example: one remote order, the id \<open>gw_1\<close> both
  times; and with the gateway down, the existing id is still returned.
\<close>

theorem no_double_remote_order_witness:
  "(\<exists>w1 r1. initiateRazorpayPayment shop world0 ''o1'' = (w1, Inr r1)
        \<and> co_razorpayOrderId r1 = ''gw_1''
        \<and> initiateRazorpayPayment shop w1 ''o1'' = (w1, Inr r1)
        \<and> gatewayCalls w1 = 1)
   \<and> initiateRazorpayPayment offline initiated_world ''o1'' =
       (initiated_world,
        Inr \<lparr>co_paymentId = 0, co_razorpayOrderId = ''gw_1'', co_razorpayKeyId = ''rzp_key'',
             co_amount = 150000, co_currency = ''INR'', co_orderNumber = ''O1''\<rparr>)"
proof -
  let ?r = "\<lparr>co_paymentId = 0, co_razorpayOrderId = ''gw_1'', co_razorpayKeyId = ''rzp_key'',
             co_amount = 150000, co_currency = ''INR'', co_orderNumber = ''O1''\<rparr>"
  have first: "(\<forall>p \<in> set (payments world0). orderId p = ''o1'' \<longrightarrow> truthy (razorpayOrderId p))
      \<and> (\<forall>n r a g. (\<lambda>n r a. Some (''gw_'' @ id_text (Suc n))) n r a = Some g \<longrightarrow> g \<noteq> [])
      \<and> initiateRazorpayPayment shop world0 ''o1'' = (initiated_world, Inr ?r)"
  proof -
    have "payments world0 = []" by (simp add: world0_def)
    then show ?thesis by (simp add: initiate_world0 initiated_world_eq)
  qed
  from first no_double_remote_order
    [of undefined undefined "''o1''" world0 "\<lambda>n r a. Some (''gw_'' @ id_text (Suc n))"
      "''rzp_key''" "\<lambda>ro rp sg. sg = ''good''"]
  have again: "initiateRazorpayPayment shop initiated_world ''o1'' = (initiated_world, Inr ?r)
      \<and> gatewayCalls initiated_world \<le> Suc (gatewayCalls world0)"
    unfolding shop_def by blast
  have calls: "gatewayCalls initiated_world = 1"
    by (simp add: initiated_world_eq gatewayCalls_def)
  from first again calls
  have c1: "\<exists>w1 r1. initiateRazorpayPayment shop world0 ''o1'' = (w1, Inr r1)
        \<and> co_razorpayOrderId r1 = ''gw_1''
        \<and> initiateRazorpayPayment shop w1 ''o1'' = (w1, Inr r1)
        \<and> gatewayCalls w1 = 1"
    by simp
  have existing: "orderRepo_getOrderById offline initiated_world ''o1''
        = Some (order1\<lparr>o_status := PaymentPending, paymentStatus := Pending,
                       paymentId := Some 0\<rparr>)
      \<and> paymentRepo_getPaymentByOrderId offline initiated_world ''o1'' = Some (0, payment1)
      \<and> truthy (razorpayOrderId (snd (0::nat, payment1)))"
    by (simp add: offline_def initiated_world_eq order1_def payment1_def ledger_defs)
  from existing no_double_remote_order [of offline initiated_world "''o1''"]
  have c2: "initiateRazorpayPayment offline initiated_world ''o1'' = (initiated_world, Inr ?r)"
    by (simp add: offline_def order1_def payment1_def val_def)
  from c1 c2 show ?thesis by blast
qed

section \<open>The claims\<close>

text \<open>
  C1, cross-entity consistency. The invariant does not survive every sequence of
  operations: cash on delivery for an order followed by a gateway checkout for the same
  order leaves the completed cash-on-delivery payment with an order that is
  payment-pending with payment status pending. \<^verbatim>\<open>initiateRazorpayPayment\<close> returns early
  only for a payment that has a gateway order id; for any other existing payment it creates
  a second payment and resets the order, where \<^verbatim>\<open>processCodPayment\<close> rejects every
  existing payment. The invariant holds after the first call and fails after the second.
  Along every run that leaves each order with at most one payment it holds
  (\<open>runs_preserve_consistency\<close>).
\<close>

theorem cod_then_gateway_breaks_consistency:
  "consistent (run shop world0 [ProcessCodPayment ''o1''])
   \<and> \<not> consistent (run shop world0 [ProcessCodPayment ''o1'', InitiateGatewayPayment ''o1''])
   \<and> map (\<lambda>p. (provider p, status p))
        (payments (run shop world0 [ProcessCodPayment ''o1'', InitiateGatewayPayment ''o1'']))
       = [(''cod'', Completed), (''razorpay'', Pending)]
   \<and> map (\<lambda>x. (oid x, o_status x, paymentStatus x))
        (orders (run shop world0 [ProcessCodPayment ''o1'', InitiateGatewayPayment ''o1'']))
       = [(''o1'', PaymentPending, Pending)]"
  by (simp add: consistent_def consistent_with_def world0_def shop_def order1_def
      service_defs ledger_defs)

text \<open>
  A sequence of operations after which the invariant fails exists.
\<close>

theorem cod_then_gateway_breaks_consistency_witness:
  "\<exists>ops. \<not> consistent (run shop world0 ops)"
  using cod_then_gateway_breaks_consistency by blast

text \<open>
  C2, the sink states. Completed and refunded are not sinks of the code.
  \<^verbatim>\<open>handlePaymentFailure\<close> marks the payment it resolves failed, and its order
  payment-failed, without a test of the current status, where \<^verbatim>\<open>handlePaymentSuccess\<close>,
  \<^verbatim>\<open>verifyRazorpayPayment\<close> and \<^verbatim>\<open>retryPayment\<close> test for completed: the failure webhook
  for the paid order of the example moves the completed payment to failed. The tests of
  those three let a refunded payment through: on the refunded payment of the example a
  retry resets the status to pending, a failure webhook moves it to failed, and a success
  webhook or a verified callback completes it again.
\<close>

theorem completed_and_refunded_payments_are_moved:
  "status (payments paid_world ! 0) = Completed
   \<and> map (\<lambda>x. (o_status x, paymentStatus x)) (orders paid_world) = [(Confirmed, Completed)]
   \<and> status (payments (step shop paid_world (HandlePaymentFailure declined)) ! 0) = Failed
   \<and> map (\<lambda>x. (o_status x, paymentStatus x))
         (orders (step shop paid_world (HandlePaymentFailure declined)))
       = [(PaymentFailed, Failed)]
   \<and> status (payments refunded_world ! 0) = Refunded
   \<and> status (payments (step shop refunded_world (RetryPayment ''o1'')) ! 0) = Pending
   \<and> status (payments (step shop refunded_world (HandlePaymentFailure declined)) ! 0) = Failed
   \<and> status (payments (step shop refunded_world (HandlePaymentSuccess paid)) ! 0) = Completed
   \<and> status (payments (step shop refunded_world
         (VerifyGatewayPayment ''o1'' ''gw_1'' ''pay_9'' ''good'')) ! 0) = Completed"
  by (simp add: paid_world_eq refunded_world_eq declined_def paid_def shop_def order1_def
      payment1_def service_defs ledger_defs)

text \<open>
  A completed payment and an operation that moves it to failed exist.
\<close>

theorem completed_and_refunded_payments_are_moved_witness:
  "\<exists>w x. status (payments w ! 0) = Completed \<and> status (payments (step shop w x) ! 0) = Failed"
  using completed_and_refunded_payments_are_moved by blast

text \<open>
  C3, idempotent completion. For arbitrary collaborators, \<^verbatim>\<open>handlePaymentSuccess\<close> on an
  event that resolves to a completed payment returns that payment in the state it was
  given. On the ledgers, when a first call returns, it returns a completed payment; the
  second call with the same event returns the same document and leaves the world (payments,
  orders and the list of write calls) exactly as the first call left it; no payment
  document is added; and the two calls together confirm the order once if the payment was
  not completed before and not at all if it was.
\<close>

theorem success_webhook_is_idempotent:
  "(\<forall>p. resolved_by d st (se_checkoutId ev) (se_orderNumber ev) (Some (se_transactionId ev))
            = Some p \<and> status (snd p) = Completed \<longrightarrow>
        handlePaymentSuccess d st ev = (st, Inr (Some p)))
   \<and> (\<forall>w1 r1. handlePaymentSuccess (ledger key reply verify) w ev = (w1, Inr r1) \<longrightarrow>
        (\<exists>i p. r1 = Some (i, p) \<and> ledger_getPaymentById w1 i = Some (i, p)
              \<and> status p = Completed \<and> i < length (payments w)
              \<and> orderConfirmations w1 =
                  orderConfirmations w + (if status (payments w ! i) = Completed then 0 else 1))
        \<and> handlePaymentSuccess (ledger key reply verify) w1 ev = (w1, Inr r1)
        \<and> length (payments w1) = length (payments w))"
proof -
  let ?L = "ledger key reply verify"
  have a: "\<forall>p. resolved_by d st (se_checkoutId ev) (se_orderNumber ev)
              (Some (se_transactionId ev)) = Some p \<and> status (snd p) = Completed \<longrightarrow>
        handlePaymentSuccess d st ev = (st, Inr (Some p))"
    by (simp add: handlePaymentSuccess_resolved)
  have b: "(\<exists>i p. r1 = Some (i, p) \<and> ledger_getPaymentById w1 i = Some (i, p)
              \<and> status p = Completed \<and> i < length (payments w)
              \<and> orderConfirmations w1 =
                  orderConfirmations w + (if status (payments w ! i) = Completed then 0 else 1))
        \<and> handlePaymentSuccess ?L w1 ev = (w1, Inr r1)
        \<and> length (payments w1) = length (payments w)"
    if first: "handlePaymentSuccess ?L w ev = (w1, Inr r1)" for w1 r1
  proof -
    let ?res = "\<lambda>w. resolved_by ?L w (se_checkoutId ev) (se_orderNumber ev)
      (Some (se_transactionId ev))"
    from first obtain i p where r: "?res w = Some (i, p)"
      by (cases "?res w") (auto simp add: handlePaymentSuccess_resolved)
    from resolved_by_ledger_Some [OF r]
    have i: "i < length (payments w)" and p: "payments w ! i = p" by simp_all
    show ?thesis
    proof (cases "status p = Completed")
      case True
      with first r have "w1 = w" "r1 = Some (i, p)"
        by (simp_all add: handlePaymentSuccess_resolved)
      with first i p True show ?thesis
        by (simp add: ledger_getPaymentById_def)
    next
      case False
      define q where "q = p\<lparr>status := Completed,
        transactionId := Some (se_transactionId ev),
        gatewayTransactionId := keep (se_gatewayTransactionId ev) (gatewayTransactionId p),
        p_method := keep (se_method ev) (p_method p),
        metadata := keep (se_webhookData ev) (metadata p)\<rparr>"
      define wm where "wm = w\<lparr>payments := (payments w)[i := q],
        calls := calls w @ [PaymentWrite i]\<rparr>"
      have mark: "ledger_markPaymentCompleted w i (se_transactionId ev)
          (se_gatewayTransactionId ev) (se_method ev) (se_webhookData ev)
          = (wm, Some (i, q))"
        using i p False
        by (simp add: ledger_markPaymentCompleted_def ledger_getPaymentById_def
            write_payment_def logged_def wm_def q_def Let_def)
      from first r False mark
      have w1: "w1 = ledger_updateOrderStatus wm (orderId p) Confirmed Completed"
        and r1: "r1 = Some (i, q)"
        by (simp_all add: handlePaymentSuccess_resolved)
      have get: "ledger_getPaymentById w1 i = Some (i, q)"
        using i by (simp add: ledger_getPaymentById_def w1 wm_def)
      have stq: "status q = Completed" by (simp add: q_def)
      have conf: "orderConfirmations w1 = orderConfirmations w + 1"
        by (simp add: orderConfirmations_def w1 wm_def is_confirmation_def)
      have "?res w1 = Some (i, q)"
        unfolding w1 wm_def
        by (rule resolved_by_after_completion [OF r]) (simp_all add: q_def)
      with stq have again: "handlePaymentSuccess ?L w1 ev = (w1, Inr (Some (i, q)))"
        by (simp add: handlePaymentSuccess_resolved)
      have len: "length (payments w1) = length (payments w)"
        by (simp add: w1 wm_def)
      from r1 get stq i conf again len p False show ?thesis by simp
    qed
  qed
  from a b show ?thesis by blast
qed

text \<open>
  The scenario of the specification: the success webhook for the initiated checkout,
  delivered twice.
\<close>

theorem success_webhook_is_idempotent_witness:
  "\<exists>w1 p. handlePaymentSuccess shop initiated_world paid = (w1, Inr (Some (0, p)))
      \<and> status p = Completed
      \<and> handlePaymentSuccess shop w1 paid = (w1, Inr (Some (0, p)))
      \<and> length (payments w1) = 1
      \<and> orderConfirmations w1 = 1"
proof -
  define pp where "pp = payment1\<lparr>status := Completed, transactionId := Some ''pay_9''\<rparr>"
  have first: "handlePaymentSuccess shop initiated_world paid = (paid_world, Inr (Some (0, pp)))"
    by (simp add: paid_world_eq initiated_world_eq paid_def pp_def shop_def order1_def
        payment1_def service_defs ledger_defs)
  from first success_webhook_is_idempotent
    [of undefined undefined paid "''rzp_key''" "\<lambda>n r a. Some (''gw_'' @ id_text (Suc n))"
      "\<lambda>ro rp sg. sg = ''good''" initiated_world]
  have again: "handlePaymentSuccess shop paid_world paid = (paid_world, Inr (Some (0, pp)))"
    and len: "length (payments paid_world) = length (payments initiated_world)"
    and conf: "orderConfirmations paid_world = orderConfirmations initiated_world
        + (if status (payments initiated_world ! 0) = Completed then 0 else 1)"
    unfolding shop_def by auto
  have "status pp = Completed" by (simp add: pp_def)
  moreover from len have "length (payments paid_world) = 1"
    by (simp add: initiated_world_eq)
  moreover from conf have "orderConfirmations paid_world = 1"
    by (simp add: initiated_world_eq payment1_def orderConfirmations_def is_confirmation_def)
  ultimately show ?thesis using first again by blast
qed



text \<open>
  C5, gateway-failure atomicity. When the adapter's create-order call fails during
  \<^verbatim>\<open>initiateRazorpayPayment\<close>, the method returns the state the adapter call left, with no
  repository operation applied, and the caller receives the gateway integration failure
  (the internal server error of the \<^verbatim>\<open>catch\<close>), whatever the collaborators are. On the
  ledgers this means that no payment document is created and every order document,
  the order's status and payment status with it, is as before.
\<close>

theorem gateway_failure_is_atomic:
  "(\<forall>ord st1. orderRepo_getOrderById d st k = Some ord
        \<and> (\<forall>p. paymentRepo_getPaymentByOrderId d st k = Some p
                \<longrightarrow> \<not> truthy (razorpayOrderId (snd p)))
        \<and> razorpayService_createOrder d st (oid ord) (totalAmount ord * 100) ''INR''
             (o_orderNumber ord) = (st1, None) \<longrightarrow>
      initiateRazorpayPayment d st k = (st1, Inl GatewayIntegrationFailure))
   \<and> (\<forall>ord. ledger_getOrderById w k = Some ord
        \<and> (\<forall>p. ledger_getPaymentByOrderId w k = Some p
                \<longrightarrow> \<not> truthy (razorpayOrderId (snd p)))
        \<and> reply (gatewayCalls w) (oid ord) (totalAmount ord * 100) = None \<longrightarrow>
      (\<exists>w'. initiateRazorpayPayment (ledger key reply verify) w k
               = (w', Inl GatewayIntegrationFailure)
            \<and> payments w' = payments w \<and> orders w' = orders w
            \<and> ledger_getOrderById w' k = Some ord))"
proof -
  have a: "\<forall>ord st1. orderRepo_getOrderById d st k = Some ord
        \<and> (\<forall>p. paymentRepo_getPaymentByOrderId d st k = Some p
                \<longrightarrow> \<not> truthy (razorpayOrderId (snd p)))
        \<and> razorpayService_createOrder d st (oid ord) (totalAmount ord * 100) ''INR''
             (o_orderNumber ord) = (st1, None) \<longrightarrow>
      initiateRazorpayPayment d st k = (st1, Inl GatewayIntegrationFailure)"
    by (auto simp add: initiateRazorpayPayment_def GatewayIntegrationFailure_def Let_def
        split: option.splits)
  have b: "\<forall>ord. ledger_getOrderById w k = Some ord
        \<and> (\<forall>p. ledger_getPaymentByOrderId w k = Some p
                \<longrightarrow> \<not> truthy (razorpayOrderId (snd p)))
        \<and> reply (gatewayCalls w) (oid ord) (totalAmount ord * 100) = None \<longrightarrow>
      (\<exists>w'. initiateRazorpayPayment (ledger key reply verify) w k
               = (w', Inl GatewayIntegrationFailure)
            \<and> payments w' = payments w \<and> orders w' = orders w
            \<and> ledger_getOrderById w' k = Some ord)"
    by (auto simp add: initiateRazorpayPayment_def GatewayIntegrationFailure_def Let_def
        gateway_createOrder_def ledger_getOrderById_def split: option.splits)
  from a b show ?thesis by blast
qed

text \<open>The gateway is down for the first checkout of the order of the example world.\<close>

theorem gateway_failure_is_atomic_witness:
  "\<exists>w'. initiateRazorpayPayment offline world0 ''o1'' = (w', Inl GatewayIntegrationFailure)
        \<and> payments w' = [] \<and> orders w' = [order1]
        \<and> ledger_getOrderById w' ''o1'' = Some order1"
proof -
  have pre: "ledger_getOrderById world0 ''o1'' = Some order1
      \<and> (\<forall>p. ledger_getPaymentByOrderId world0 ''o1'' = Some p
              \<longrightarrow> \<not> truthy (razorpayOrderId (snd p)))
      \<and> (\<lambda>n r a. None :: string option) (gatewayCalls world0) (oid order1)
           (totalAmount order1 * 100) = None"
    by (simp add: world0_def order1_def ledger_defs)
  from gateway_failure_is_atomic
    [of undefined undefined "''o1''" world0 "\<lambda>n r a. None" "''rzp_key''" "\<lambda>ro rp sg. False"]
  have "\<forall>ord. ledger_getOrderById world0 ''o1'' = Some ord
        \<and> (\<forall>p. ledger_getPaymentByOrderId world0 ''o1'' = Some p
                \<longrightarrow> \<not> truthy (razorpayOrderId (snd p)))
        \<and> (\<lambda>n r a. None :: string option) (gatewayCalls world0) (oid ord)
             (totalAmount ord * 100) = None \<longrightarrow>
      (\<exists>w'. initiateRazorpayPayment offline world0 ''o1''
               = (w', Inl GatewayIntegrationFailure)
            \<and> payments w' = payments world0 \<and> orders w' = orders world0
            \<and> ledger_getOrderById w' ''o1'' = Some ord)"
    unfolding offline_def by blast
  with pre have "\<exists>w'. initiateRazorpayPayment offline world0 ''o1''
               = (w', Inl GatewayIntegrationFailure)
            \<and> payments w' = payments world0 \<and> orders w' = orders world0
            \<and> ledger_getOrderById w' ''o1'' = Some order1"
    by blast
  then show ?thesis by (simp add: world0_def)
qed

text \<open>
  C6, the cash-on-delivery flow. For arbitrary collaborators, \<^verbatim>\<open>processCodPayment\<close> fails
  with the not-found error when the order does not exist and with the duplicate-payment
  error when the order has a payment, in the state it was given. On the ledgers, any
  payment of the order, whatever its status, gives the duplicate-payment error; with none,
  the call adds one payment with provider \<open>cod\<close>, stored as completed with the
  transaction id \<open>cod_\<close> followed by the payment id, links it to the order and sets the
  order to confirmed with payment status completed, without a gateway call; a second call
  then fails with the duplicate-payment error and leaves the world, the confirmed order
  with it, as it is. The document the call returns is the one the repository created,
  still pending.
\<close>

theorem cod_payment_flow:
  "(orderRepo_getOrderById d st k = None \<longrightarrow>
      processCodPayment d st k = (st, Inl OrderNotFound))
   \<and> (\<forall>ord p. orderRepo_getOrderById d st k = Some ord
          \<and> paymentRepo_getPaymentByOrderId d st k = Some p \<longrightarrow>
      processCodPayment d st k = (st, Inl DuplicatePayment))
   \<and> (\<forall>ord. ledger_getOrderById w k = Some ord \<and> (\<exists>p \<in> set (payments w). orderId p = k) \<longrightarrow>
      processCodPayment (ledger key reply verify) w k = (w, Inl DuplicatePayment))
   \<and> (\<forall>ord. ledger_getOrderById w k = Some ord \<and> ledger_getPaymentByOrderId w k = None \<longrightarrow>
      (\<exists>w' doc. processCodPayment (ledger key reply verify) w k
                   = (w', Inr (length (payments w), doc))
          \<and> ledger_getPaymentById w' (length (payments w))
               = Some (length (payments w),
                       doc\<lparr>status := Completed,
                           transactionId := Some (''cod_'' @ id_text (length (payments w)))\<rparr>)
          \<and> provider doc = ''cod'' \<and> orderId doc = k \<and> amount doc = totalAmount ord
          \<and> length (payments w') = Suc (length (payments w))
          \<and> ledger_getOrderById w' k
               = Some (ord\<lparr>o_status := Confirmed, paymentStatus := Completed,
                           paymentId := Some (length (payments w))\<rparr>)
          \<and> gatewayCalls w' = gatewayCalls w
          \<and> processCodPayment (ledger key reply verify) w' k = (w', Inl DuplicatePayment)))"
proof -
  have a1: "orderRepo_getOrderById d st k = None \<longrightarrow>
      processCodPayment d st k = (st, Inl OrderNotFound)"
    by (simp add: processCodPayment_def OrderNotFound_def)
  have a2: "\<forall>ord p. orderRepo_getOrderById d st k = Some ord
          \<and> paymentRepo_getPaymentByOrderId d st k = Some p \<longrightarrow>
      processCodPayment d st k = (st, Inl DuplicatePayment)"
    by (simp add: processCodPayment_def DuplicatePayment_def)
  have a3: "\<forall>ord. ledger_getOrderById w k = Some ord \<and> (\<exists>p \<in> set (payments w). orderId p = k) \<longrightarrow>
      processCodPayment (ledger key reply verify) w k = (w, Inl DuplicatePayment)"
    by (auto simp add: processCodPayment_def DuplicatePayment_def ledger_getPaymentByOrderId_def
        find_doc_None split: option.splits)
  have b: "\<exists>w' doc. processCodPayment (ledger key reply verify) w k
                   = (w', Inr (length (payments w), doc))
          \<and> ledger_getPaymentById w' (length (payments w))
               = Some (length (payments w),
                       doc\<lparr>status := Completed,
                           transactionId := Some (''cod_'' @ id_text (length (payments w)))\<rparr>)
          \<and> provider doc = ''cod'' \<and> orderId doc = k \<and> amount doc = totalAmount ord
          \<and> length (payments w') = Suc (length (payments w))
          \<and> ledger_getOrderById w' k
               = Some (ord\<lparr>o_status := Confirmed, paymentStatus := Completed,
                           paymentId := Some (length (payments w))\<rparr>)
          \<and> gatewayCalls w' = gatewayCalls w
          \<and> processCodPayment (ledger key reply verify) w' k = (w', Inl DuplicatePayment)"
    if o: "ledger_getOrderById w k = Some ord" and none: "ledger_getPaymentByOrderId w k = None"
    for ord
  proof -
    define n where "n = length (payments w)"
    define doc where "doc = \<lparr>orderId = k, orderNumber = o_orderNumber ord,
      userId = o_userId ord, sessionId = o_sessionId ord, provider = ''cod'',
      amount = totalAmount ord, p_method = Some ''cod'', status = Pending,
      razorpayOrderId = None, checkoutId = None, checkoutUrl = None, transactionId = None,
      gatewayTransactionId = None, errorCode = None, errorMessage = None,
      failureReason = None, refundAmount = None, refundTransactionId = None,
      metadata = None\<rparr>"
    define w1 where "w1 = \<lparr>payments = payments w
        @ [doc\<lparr>status := Completed, transactionId := Some (''cod_'' @ id_text n)\<rparr>],
      orders = map (\<lambda>x. if oid x = k then x\<lparr>paymentId := Some n\<rparr> else x) (orders w),
      calls = calls w @ [PaymentInsert n, PaymentWrite n, OrderLinkWrite k n]\<rparr>"
    define w' where "w' = ledger_updateOrderStatus w1 k Confirmed Completed"
    have k: "oid ord = k" by (rule getOrderById_oid [OF o])
    have cp: "createPayment (ledger key reply verify) w k (o_orderNumber ord) (o_userId ord)
        (o_sessionId ord) ''cod'' (totalAmount ord) (Some ''cod'') (Some Completed) None
        = (w1, (n, doc))"
      by (simp add: createPayment_cod n_def doc_def w1_def Let_def)
    have res: "processCodPayment (ledger key reply verify) w k = (w', Inr (n, doc))"
      using o none k cp by (simp add: processCodPayment_def w'_def)
    have ps: "payments w' = payments w
        @ [doc\<lparr>status := Completed, transactionId := Some (''cod_'' @ id_text n)\<rparr>]"
      by (simp add: w'_def w1_def)
    have get: "ledger_getPaymentById w' n
        = Some (n, doc\<lparr>status := Completed, transactionId := Some (''cod_'' @ id_text n)\<rparr>)"
      by (simp add: ledger_getPaymentById_def ps n_def)
    have fields: "provider doc = ''cod''" "orderId doc = k" "amount doc = totalAmount ord"
      by (simp_all add: doc_def)
    have len: "length (payments w') = Suc n"
      by (simp add: ps n_def)
    have o1: "ledger_getOrderById w1 k = Some (ord\<lparr>paymentId := Some n\<rparr>)"
    proof -
      have "ledger_getOrderById w1 k = ledger_getOrderById (ledger_updateOrderPaymentId w k n) k"
        by (simp add: ledger_getOrderById_def w1_def)
      then show ?thesis using o k by (simp add: getOrderById_updateOrderPaymentId)
    qed
    have o': "ledger_getOrderById w' k
        = Some (ord\<lparr>o_status := Confirmed, paymentStatus := Completed, paymentId := Some n\<rparr>)"
      using o1 k by (simp add: w'_def getOrderById_updateOrderStatus)
    have gw: "gatewayCalls w' = gatewayCalls w"
      by (simp add: gatewayCalls_def w'_def w1_def)
    have dup: "ledger_getPaymentByOrderId w' k
        = Some (n, doc\<lparr>status := Completed, transactionId := Some (''cod_'' @ id_text n)\<rparr>)"
      using none
      by (simp add: ledger_getPaymentByOrderId_def ps find_doc_append n_def doc_def)
    have again: "processCodPayment (ledger key reply verify) w' k = (w', Inl DuplicatePayment)"
      using o' dup by (simp add: processCodPayment_def DuplicatePayment_def)
    from res get fields len o' gw again show ?thesis
      unfolding n_def by blast
  qed
  from a1 a2 a3 b show ?thesis by blast
qed

text \<open>
  An unknown order, an order with a gateway payment, and cash on delivery for the order of
  the example, twice.
\<close>

theorem cod_payment_flow_witness:
  "processCodPayment shop world0 ''o9'' = (world0, Inl OrderNotFound)
   \<and> processCodPayment shop initiated_world ''o1'' = (initiated_world, Inl DuplicatePayment)
   \<and> (\<exists>w' doc. processCodPayment shop world0 ''o1'' = (w', Inr (0, doc))
          \<and> map_option snd (ledger_getPaymentById w' 0)
               = Some (doc\<lparr>status := Completed, transactionId := Some ''cod_0''\<rparr>)
          \<and> provider doc = ''cod'' \<and> amount doc = 1500
          \<and> map_option o_status (ledger_getOrderById w' ''o1'') = Some Confirmed
          \<and> map_option paymentStatus (ledger_getOrderById w' ''o1'') = Some Completed
          \<and> gatewayCalls w' = 0
          \<and> processCodPayment shop w' ''o1'' = (w', Inl DuplicatePayment))"
proof -
  have none: "orderRepo_getOrderById shop world0 ''o9'' = None"
    by (simp add: shop_def world0_def order1_def ledger_defs)
  have dup: "ledger_getOrderById initiated_world ''o1''
        = Some (order1\<lparr>o_status := PaymentPending, paymentStatus := Pending,
                       paymentId := Some 0\<rparr>)
      \<and> (\<exists>p \<in> set (payments initiated_world). orderId p = ''o1'')"
    by (simp add: initiated_world_eq order1_def payment1_def ledger_defs)
  have fresh: "ledger_getOrderById world0 ''o1'' = Some order1
      \<and> ledger_getPaymentByOrderId world0 ''o1'' = None"
    by (simp add: world0_def order1_def ledger_defs)
  from none cod_payment_flow [of shop world0 "''o9''"]
  have c1: "processCodPayment shop world0 ''o9'' = (world0, Inl OrderNotFound)" by blast
  from dup cod_payment_flow
    [of undefined undefined "''o1''" initiated_world "''rzp_key''"
      "\<lambda>n r a. Some (''gw_'' @ id_text (Suc n))" "\<lambda>ro rp sg. sg = ''good''"]
  have c2: "processCodPayment shop initiated_world ''o1''
      = (initiated_world, Inl DuplicatePayment)"
    unfolding shop_def by blast
  from fresh cod_payment_flow
    [of undefined undefined "''o1''" world0 "''rzp_key''"
      "\<lambda>n r a. Some (''gw_'' @ id_text (Suc n))" "\<lambda>ro rp sg. sg = ''good''"]
  obtain w' doc where
    "processCodPayment shop world0 ''o1'' = (w', Inr (length (payments world0), doc))"
    "ledger_getPaymentById w' (length (payments world0))
       = Some (length (payments world0),
               doc\<lparr>status := Completed,
                   transactionId := Some (''cod_'' @ id_text (length (payments world0)))\<rparr>)"
    "provider doc = ''cod''" "amount doc = totalAmount order1"
    "ledger_getOrderById w' ''o1''
       = Some (order1\<lparr>o_status := Confirmed, paymentStatus := Completed,
                      paymentId := Some (length (payments world0))\<rparr>)"
    "gatewayCalls w' = gatewayCalls world0"
    "processCodPayment shop w' ''o1'' = (w', Inl DuplicatePayment)"
    unfolding shop_def by blast
  then have c3: "\<exists>w' doc. processCodPayment shop world0 ''o1'' = (w', Inr (0, doc))
          \<and> map_option snd (ledger_getPaymentById w' 0)
               = Some (doc\<lparr>status := Completed, transactionId := Some ''cod_0''\<rparr>)
          \<and> provider doc = ''cod'' \<and> amount doc = 1500
          \<and> map_option o_status (ledger_getOrderById w' ''o1'') = Some Confirmed
          \<and> map_option paymentStatus (ledger_getOrderById w' ''o1'') = Some Completed
          \<and> gatewayCalls w' = 0
          \<and> processCodPayment shop w' ''o1'' = (w', Inl DuplicatePayment)"
    by (auto simp add: world0_def order1_def gatewayCalls_def)
  from c1 c2 c3 show ?thesis by blast
qed

text \<open>
  C7, the preconditions and the effect of a refund, as the code orders its checks. For
  arbitrary collaborators, \<^verbatim>\<open>initiateRefund\<close> fails with the not-found error when the
  payment does not exist, with the invalid-state error when the payment is not completed,
  and with the invalid-amount error when the payment is completed and the refund amount
  exceeds its amount, each time in the state it was given; otherwise it calls the ledger's
  refund and sets the order to refunded with payment status refunded. On the ledgers the
  payment is then refunded with the refund amount recorded, and a second refund is rejected
  with the invalid-state error.
\<close>

theorem refund_preconditions_and_effect:
  "(paymentRepo_getPaymentById d st i = None \<longrightarrow>
      initiateRefund d st i a t = (st, Inl PaymentNotFound))
   \<and> (\<forall>p. paymentRepo_getPaymentById d st i = Some p \<and> status (snd p) \<noteq> Completed \<longrightarrow>
      initiateRefund d st i a t = (st, Inl InvalidStateNotCompleted))
   \<and> (\<forall>p. paymentRepo_getPaymentById d st i = Some p \<and> status (snd p) = Completed
          \<and> a > amount (snd p) \<longrightarrow>
      initiateRefund d st i a t = (st, Inl InvalidAmount))
   \<and> (\<forall>p. paymentRepo_getPaymentById d st i = Some p \<and> status (snd p) = Completed
          \<and> a \<le> amount (snd p) \<longrightarrow>
      initiateRefund d st i a t =
        (orderRepo_updateOrderStatus d (fst (paymentRepo_initiateRefund d st (fst p) a t))
           (orderId (snd p)) OrderRefunded Refunded,
         Inr (snd (paymentRepo_initiateRefund d st (fst p) a t))))
   \<and> (\<forall>p ord. ledger_getPaymentById w i = Some (i, p) \<and> status p = Completed
          \<and> a \<le> amount p \<and> ledger_getOrderById w (orderId p) = Some ord \<longrightarrow>
      (\<exists>w' p'. initiateRefund (ledger key reply verify) w i a t = (w', Inr (Some (i, p')))
            \<and> ledger_getPaymentById w' i = Some (i, p')
            \<and> status p' = Refunded \<and> refundAmount p' = Some a
            \<and> ledger_getOrderById w' (orderId p)
                 = Some (ord\<lparr>o_status := OrderRefunded, paymentStatus := Refunded\<rparr>)
            \<and> initiateRefund (ledger key reply verify) w' i a t
                 = (w', Inl InvalidStateNotCompleted)))"
proof -
  have a1: "paymentRepo_getPaymentById d st i = None \<longrightarrow>
      initiateRefund d st i a t = (st, Inl PaymentNotFound)"
    by (simp add: initiateRefund_def PaymentNotFound_def)
  have a2: "\<forall>p. paymentRepo_getPaymentById d st i = Some p \<and> status (snd p) \<noteq> Completed \<longrightarrow>
      initiateRefund d st i a t = (st, Inl InvalidStateNotCompleted)"
    by (simp add: initiateRefund_def InvalidStateNotCompleted_def)
  have a3: "\<forall>p. paymentRepo_getPaymentById d st i = Some p \<and> status (snd p) = Completed
          \<and> a > amount (snd p) \<longrightarrow>
      initiateRefund d st i a t = (st, Inl InvalidAmount)"
    by (simp add: initiateRefund_def InvalidAmount_def)
  have a4: "\<forall>p. paymentRepo_getPaymentById d st i = Some p \<and> status (snd p) = Completed
          \<and> a \<le> amount (snd p) \<longrightarrow>
      initiateRefund d st i a t =
        (orderRepo_updateOrderStatus d (fst (paymentRepo_initiateRefund d st (fst p) a t))
           (orderId (snd p)) OrderRefunded Refunded,
         Inr (snd (paymentRepo_initiateRefund d st (fst p) a t)))"
    by (simp add: initiateRefund_def split: prod.splits)
  have b: "\<exists>w' p'. initiateRefund (ledger key reply verify) w i a t = (w', Inr (Some (i, p')))
            \<and> ledger_getPaymentById w' i = Some (i, p')
            \<and> status p' = Refunded \<and> refundAmount p' = Some a
            \<and> ledger_getOrderById w' (orderId p)
                 = Some (ord\<lparr>o_status := OrderRefunded, paymentStatus := Refunded\<rparr>)
            \<and> initiateRefund (ledger key reply verify) w' i a t
                 = (w', Inl InvalidStateNotCompleted)"
    if found: "ledger_getPaymentById w i = Some (i, p)" and done_: "status p = Completed"
      and le: "a \<le> amount p" and o: "ledger_getOrderById w (orderId p) = Some ord"
    for p ord
  proof -
    from getPaymentById_Some [OF found]
    have i: "i < length (payments w)" and p: "payments w ! i = p" by simp_all
    define p' where "p' = p\<lparr>status := Refunded, refundAmount := Some a,
      refundTransactionId := keep t (refundTransactionId p)\<rparr>"
    define w1 where "w1 = write_payment w i
      (\<lambda>p. p\<lparr>status := Refunded, refundAmount := Some a,
              refundTransactionId := keep t (refundTransactionId p)\<rparr>)"
    define w' where "w' = ledger_updateOrderStatus w1 (orderId p) OrderRefunded Refunded"
    have ps1: "payments w1 = (payments w)[i := p']"
      using p by (simp add: w1_def p'_def)
    have get1: "ledger_getPaymentById w1 i = Some (i, p')"
      using i ps1 by (simp add: ledger_getPaymentById_def)
    have res: "initiateRefund (ledger key reply verify) w i a t = (w', Inr (Some (i, p')))"
      using found done_ le get1
      by (simp add: initiateRefund_def ledger_initiateRefund_def w1_def w'_def Let_def)
    have get': "ledger_getPaymentById w' i = Some (i, p')"
      using get1 by (simp add: ledger_getPaymentById_def w'_def split: if_splits)
    have st: "status p' = Refunded" "refundAmount p' = Some a"
      by (simp_all add: p'_def)
    have ord': "ledger_getOrderById w' (orderId p)
        = Some (ord\<lparr>o_status := OrderRefunded, paymentStatus := Refunded\<rparr>)"
      using o getOrderById_oid [OF o]
      by (simp add: w'_def w1_def getOrderById_updateOrderStatus)
    have again: "initiateRefund (ledger key reply verify) w' i a t
        = (w', Inl InvalidStateNotCompleted)"
      using get' st by (simp add: initiateRefund_def InvalidStateNotCompleted_def)
    from res get' st ord' again show ?thesis by blast
  qed
  from a1 a2 a3 a4 b show ?thesis by blast
qed

text \<open>
  The claim as it is stated fails: a refund above the amount of a payment that is not
  completed is rejected with the invalid-state error, not the invalid-amount error.
\<close>

theorem refund_of_unpaid_is_invalid_state:
  "amount (payments initiated_world ! 0) < 2000
   \<and> initiateRefund shop initiated_world 0 2000 None
       = (initiated_world, Inl InvalidStateNotCompleted)
   \<and> InvalidStateNotCompleted \<noteq> InvalidAmount"
  by (simp add: initiated_world_eq payment1_def shop_def initiateRefund_def
      ledger_getPaymentById_def InvalidStateNotCompleted_def InvalidAmount_def)

text \<open>
  The four outcomes on the example, and the second refund.
\<close>

theorem refund_preconditions_and_effect_witness:
  "initiateRefund shop paid_world 7 100 None = (paid_world, Inl PaymentNotFound)
   \<and> initiateRefund shop initiated_world 0 100 None
       = (initiated_world, Inl InvalidStateNotCompleted)
   \<and> initiateRefund shop paid_world 0 2000 None = (paid_world, Inl InvalidAmount)
   \<and> (\<exists>w' p'. initiateRefund shop paid_world 0 1500 None = (w', Inr (Some (0, p')))
          \<and> status p' = Refunded \<and> refundAmount p' = Some 1500
          \<and> map_option o_status (ledger_getOrderById w' ''o1'') = Some OrderRefunded
          \<and> map_option paymentStatus (ledger_getOrderById w' ''o1'') = Some Refunded
          \<and> initiateRefund shop w' 0 1500 None = (w', Inl InvalidStateNotCompleted))"
proof -
  define pp where "pp = payment1\<lparr>status := Completed, transactionId := Some ''pay_9''\<rparr>"
  define oo where "oo = order1\<lparr>o_status := Confirmed, paymentStatus := Completed,
    paymentId := Some 0\<rparr>"
  have none: "paymentRepo_getPaymentById shop paid_world 7 = None"
    by (simp add: shop_def paid_world_eq ledger_defs)
  have pend: "paymentRepo_getPaymentById shop initiated_world 0 = Some (0, payment1)
      \<and> status (snd (0::nat, payment1)) \<noteq> Completed"
    by (simp add: shop_def initiated_world_eq payment1_def ledger_defs)
  have paid: "paymentRepo_getPaymentById shop paid_world 0 = Some (0, pp)
      \<and> status (snd (0::nat, pp)) = Completed \<and> 2000 > amount (snd (0::nat, pp))"
    by (simp add: shop_def paid_world_eq pp_def payment1_def ledger_defs)
  have ok: "ledger_getPaymentById paid_world 0 = Some (0, pp) \<and> status pp = Completed
      \<and> 1500 \<le> amount pp \<and> ledger_getOrderById paid_world (orderId pp) = Some oo"
    by (simp add: paid_world_eq pp_def oo_def payment1_def order1_def ledger_defs)
  from none refund_preconditions_and_effect [of shop paid_world 7 100 None]
  have c1: "initiateRefund shop paid_world 7 100 None = (paid_world, Inl PaymentNotFound)"
    by blast
  from pend refund_preconditions_and_effect [of shop initiated_world 0 100 None]
  have c2: "initiateRefund shop initiated_world 0 100 None
      = (initiated_world, Inl InvalidStateNotCompleted)"
    by blast
  from paid refund_preconditions_and_effect [of shop paid_world 0 2000 None]
  have c3: "initiateRefund shop paid_world 0 2000 None = (paid_world, Inl InvalidAmount)"
    by blast
  from ok refund_preconditions_and_effect
    [of undefined undefined 0 1500 None paid_world "''rzp_key''"
      "\<lambda>n r a. Some (''gw_'' @ id_text (Suc n))" "\<lambda>ro rp sg. sg = ''good''"]
  obtain w' p' where "initiateRefund shop paid_world 0 1500 None = (w', Inr (Some (0, p')))"
    "status p' = Refunded" "refundAmount p' = Some 1500"
    "ledger_getOrderById w' (orderId pp)
       = Some (oo\<lparr>o_status := OrderRefunded, paymentStatus := Refunded\<rparr>)"
    "initiateRefund shop w' 0 1500 None = (w', Inl InvalidStateNotCompleted)"
    unfolding shop_def by blast
  then have c4: "\<exists>w' p'. initiateRefund shop paid_world 0 1500 None = (w', Inr (Some (0, p')))
          \<and> status p' = Refunded \<and> refundAmount p' = Some 1500
          \<and> map_option o_status (ledger_getOrderById w' ''o1'') = Some OrderRefunded
          \<and> map_option paymentStatus (ledger_getOrderById w' ''o1'') = Some Refunded
          \<and> initiateRefund shop w' 0 1500 None = (w', Inl InvalidStateNotCompleted)"
    by (auto simp add: pp_def payment1_def)
  from c1 c2 c3 c4 show ?thesis by blast
qed

text \<open>
  C8, the error handling of the verify path. Whatever the collaborators are,
  \<^verbatim>\<open>verifyRazorpayPayment\<close> fails with the invalid-signature error and returns the state it
  was given whenever the adapter's check of the signature returns false; when the signature
  is valid and no payment matches the gateway order id, it fails with the not-found error,
  again in the state it was given.
\<close>

theorem verify_rejects_before_writing:
  "(\<not> razorpayService_verifyPaymentSignature d ro rp sg \<longrightarrow>
      verifyRazorpayPayment d st x ro rp sg = (st, Inl InvalidSignature))
   \<and> (razorpayService_verifyPaymentSignature d ro rp sg
        \<and> paymentRepo_getPaymentByRazorpayOrderId d st ro = None \<longrightarrow>
      verifyRazorpayPayment d st x ro rp sg = (st, Inl PaymentNotFound))"
  by (simp add: verifyRazorpayPayment_def InvalidSignature_def PaymentNotFound_def)

text \<open>A forged signature, and a good signature for a gateway order id no payment has.\<close>

theorem verify_rejects_before_writing_witness:
  "verifyRazorpayPayment shop world0 ''o1'' ''gw_1'' ''pay_9'' ''forged'' = (world0, Inl InvalidSignature)
   \<and> verifyRazorpayPayment shop world0 ''o1'' ''gw_1'' ''pay_9'' ''good'' = (world0, Inl PaymentNotFound)"
proof -
  have bad: "\<not> razorpayService_verifyPaymentSignature shop ''gw_1'' ''pay_9'' ''forged''"
    by (simp add: shop_def)
  have good: "razorpayService_verifyPaymentSignature shop ''gw_1'' ''pay_9'' ''good''
      \<and> paymentRepo_getPaymentByRazorpayOrderId shop world0 ''gw_1'' = None"
    by (simp add: shop_def world0_def ledger_getPaymentByRazorpayOrderId_def)
  from bad good
    verify_rejects_before_writing [of shop "''gw_1''" "''pay_9''" "''forged''" world0 "''o1''"]
    verify_rejects_before_writing [of shop "''gw_1''" "''pay_9''" "''good''" world0 "''o1''"]
  show ?thesis by blast
qed

text \<open>
  C9, the lookup priority of the webhook handlers. \<^verbatim>\<open>handlePaymentSuccess\<close> and
  \<^verbatim>\<open>handlePaymentFailure\<close> resolve the payment by one strategy, chosen by the first of
  checkout id, order number and transaction id that the event carries (as a non-empty
  string). When the chosen lookup finds nothing the call fails with the not-found error in
  the state it was given, whatever a later strategy would find; when it finds a payment,
  that payment is the one the handler completes or fails.
\<close>

theorem webhook_lookup_uses_one_strategy:
  "(truthy (se_checkoutId ev)
      \<and> paymentRepo_getPaymentByCheckoutId d st (val (se_checkoutId ev)) = None \<longrightarrow>
      handlePaymentSuccess d st ev = (st, Inl PaymentNotFound))
   \<and> (\<not> truthy (se_checkoutId ev) \<and> truthy (se_orderNumber ev)
        \<and> (case orderRepo_getOrderByOrderNumber d st (val (se_orderNumber ev)) of
              None \<Rightarrow> None
            | Some order \<Rightarrow> paymentRepo_getPaymentByOrderId d st (oid order)) = None \<longrightarrow>
      handlePaymentSuccess d st ev = (st, Inl PaymentNotFound))
   \<and> (\<not> truthy (se_checkoutId ev) \<and> \<not> truthy (se_orderNumber ev)
        \<and> (se_transactionId ev = []
             \<or> paymentRepo_getPaymentByTransactionId d st (se_transactionId ev) = None) \<longrightarrow>
      handlePaymentSuccess d st ev = (st, Inl PaymentNotFound))
   \<and> (truthy (fe_checkoutId fv)
        \<and> paymentRepo_getPaymentByCheckoutId d st (val (fe_checkoutId fv)) = None \<longrightarrow>
      handlePaymentFailure d st fv = (st, Inl PaymentNotFound))
   \<and> (\<not> truthy (fe_checkoutId fv) \<and> truthy (fe_orderNumber fv)
        \<and> (case orderRepo_getOrderByOrderNumber d st (val (fe_orderNumber fv)) of
              None \<Rightarrow> None
            | Some order \<Rightarrow> paymentRepo_getPaymentByOrderId d st (oid order)) = None \<longrightarrow>
      handlePaymentFailure d st fv = (st, Inl PaymentNotFound))
   \<and> (\<not> truthy (fe_checkoutId fv) \<and> \<not> truthy (fe_orderNumber fv)
        \<and> (\<not> truthy (fe_transactionId fv)
             \<or> paymentRepo_getPaymentByTransactionId d st (val (fe_transactionId fv)) = None) \<longrightarrow>
      handlePaymentFailure d st fv = (st, Inl PaymentNotFound))
   \<and> (\<forall>p. resolved_by d st (se_checkoutId ev) (se_orderNumber ev)
              (Some (se_transactionId ev)) = Some p \<longrightarrow>
          handlePaymentSuccess d st ev =
            (if status (snd p) = Completed then (st, Inr (Some p))
             else
               (orderRepo_updateOrderStatus d
                  (fst (paymentRepo_markPaymentCompleted d st (fst p) (se_transactionId ev)
                          (se_gatewayTransactionId ev) (se_method ev) (se_webhookData ev)))
                  (orderId (snd p)) Confirmed Completed,
                Inr (snd (paymentRepo_markPaymentCompleted d st (fst p) (se_transactionId ev)
                            (se_gatewayTransactionId ev) (se_method ev)
                            (se_webhookData ev))))))
   \<and> (\<forall>p. resolved_by d st (fe_checkoutId fv) (fe_orderNumber fv) (fe_transactionId fv)
              = Some p \<longrightarrow>
          handlePaymentFailure d st fv =
            (orderRepo_updateOrderStatus d
               (fst (paymentRepo_markPaymentFailed d st (fst p) (fe_errorCode fv)
                       (fe_errorMessage fv) (fe_failureReason fv) (fe_webhookData fv)))
               (orderId (snd p)) PaymentFailed Failed,
             Inr (snd (paymentRepo_markPaymentFailed d st (fst p) (fe_errorCode fv)
                         (fe_errorMessage fv) (fe_failureReason fv) (fe_webhookData fv)))))"
proof -
  have s1: "truthy (se_checkoutId ev)
      \<and> paymentRepo_getPaymentByCheckoutId d st (val (se_checkoutId ev)) = None \<longrightarrow>
      handlePaymentSuccess d st ev = (st, Inl PaymentNotFound)"
    by (simp add: handlePaymentSuccess_def PaymentNotFound_def)
  have s2: "\<not> truthy (se_checkoutId ev) \<and> truthy (se_orderNumber ev)
        \<and> (case orderRepo_getOrderByOrderNumber d st (val (se_orderNumber ev)) of
              None \<Rightarrow> None
            | Some order \<Rightarrow> paymentRepo_getPaymentByOrderId d st (oid order)) = None \<longrightarrow>
      handlePaymentSuccess d st ev = (st, Inl PaymentNotFound)"
    by (simp add: handlePaymentSuccess_def PaymentNotFound_def)
  have s3: "\<not> truthy (se_checkoutId ev) \<and> \<not> truthy (se_orderNumber ev)
        \<and> (se_transactionId ev = []
             \<or> paymentRepo_getPaymentByTransactionId d st (se_transactionId ev) = None) \<longrightarrow>
      handlePaymentSuccess d st ev = (st, Inl PaymentNotFound)"
    by (auto simp add: handlePaymentSuccess_def PaymentNotFound_def)
  have f1: "truthy (fe_checkoutId fv)
        \<and> paymentRepo_getPaymentByCheckoutId d st (val (fe_checkoutId fv)) = None \<longrightarrow>
      handlePaymentFailure d st fv = (st, Inl PaymentNotFound)"
    by (simp add: handlePaymentFailure_def PaymentNotFound_def)
  have f2: "\<not> truthy (fe_checkoutId fv) \<and> truthy (fe_orderNumber fv)
        \<and> (case orderRepo_getOrderByOrderNumber d st (val (fe_orderNumber fv)) of
              None \<Rightarrow> None
            | Some order \<Rightarrow> paymentRepo_getPaymentByOrderId d st (oid order)) = None \<longrightarrow>
      handlePaymentFailure d st fv = (st, Inl PaymentNotFound)"
    by (simp add: handlePaymentFailure_def PaymentNotFound_def)
  have f3: "\<not> truthy (fe_checkoutId fv) \<and> \<not> truthy (fe_orderNumber fv)
        \<and> (\<not> truthy (fe_transactionId fv)
             \<or> paymentRepo_getPaymentByTransactionId d st (val (fe_transactionId fv)) = None) \<longrightarrow>
      handlePaymentFailure d st fv = (st, Inl PaymentNotFound)"
    by (auto simp add: handlePaymentFailure_def PaymentNotFound_def)
  have s4: "\<forall>p. resolved_by d st (se_checkoutId ev) (se_orderNumber ev)
              (Some (se_transactionId ev)) = Some p \<longrightarrow>
          handlePaymentSuccess d st ev =
            (if status (snd p) = Completed then (st, Inr (Some p))
             else
               (orderRepo_updateOrderStatus d
                  (fst (paymentRepo_markPaymentCompleted d st (fst p) (se_transactionId ev)
                          (se_gatewayTransactionId ev) (se_method ev) (se_webhookData ev)))
                  (orderId (snd p)) Confirmed Completed,
                Inr (snd (paymentRepo_markPaymentCompleted d st (fst p) (se_transactionId ev)
                            (se_gatewayTransactionId ev) (se_method ev)
                            (se_webhookData ev)))))"
    by (simp add: handlePaymentSuccess_def resolved_by_def truthy_def val_def
        split: prod.splits)
  have f4: "\<forall>p. resolved_by d st (fe_checkoutId fv) (fe_orderNumber fv) (fe_transactionId fv)
              = Some p \<longrightarrow>
          handlePaymentFailure d st fv =
            (orderRepo_updateOrderStatus d
               (fst (paymentRepo_markPaymentFailed d st (fst p) (fe_errorCode fv)
                       (fe_errorMessage fv) (fe_failureReason fv) (fe_webhookData fv)))
               (orderId (snd p)) PaymentFailed Failed,
             Inr (snd (paymentRepo_markPaymentFailed d st (fst p) (fe_errorCode fv)
                         (fe_errorMessage fv) (fe_failureReason fv) (fe_webhookData fv))))"
    by (simp add: handlePaymentFailure_def resolved_by_def split: prod.splits)
  from s1 s2 s3 f1 f2 f3 s4 f4 show ?thesis by blast
qed

text \<open>Events with a checkout id that no payment has: the order number they also carry
  would resolve the payment, and is not tried.\<close>

theorem webhook_lookup_uses_one_strategy_witness:
  "resolved_by shop initiated_world None (Some ''O1'') (Some ''pay_9'') = Some (0, payment1)
   \<and> handlePaymentSuccess shop initiated_world stray_success
       = (initiated_world, Inl PaymentNotFound)
   \<and> handlePaymentFailure shop initiated_world stray_failure
       = (initiated_world, Inl PaymentNotFound)"
proof -
  have r: "resolved_by shop initiated_world None (Some ''O1'') (Some ''pay_9'')
      = Some (0, payment1)"
    by (simp add: resolved_by_def initiated_world_eq shop_def order1_def payment1_def
        ledger_defs)
  have s: "truthy (se_checkoutId stray_success)
      \<and> paymentRepo_getPaymentByCheckoutId shop initiated_world
          (val (se_checkoutId stray_success)) = None"
    by (simp add: stray_success_def initiated_world_eq shop_def payment1_def ledger_defs)
  have f: "truthy (fe_checkoutId stray_failure)
      \<and> paymentRepo_getPaymentByCheckoutId shop initiated_world
          (val (fe_checkoutId stray_failure)) = None"
    by (simp add: stray_failure_def initiated_world_eq shop_def payment1_def ledger_defs)
  from r s f
    webhook_lookup_uses_one_strategy [of stray_success shop initiated_world stray_failure]
  show ?thesis by blast
qed

text \<open>
  C10, the retry that fails after writing. For arbitrary collaborators, when the order's
  payment is not completed and has no checkout URL, \<^verbatim>\<open>retryPayment\<close> raises the
  no-checkout error in the state that the status write to pending left. On the ledgers the
  payment is then pending and the orders are untouched, so the payments differ from before
  the call whenever the status was not pending.
\<close>

theorem retry_resets_before_raising:
  "(\<forall>p. paymentRepo_getPaymentByOrderId d st k = Some p \<and> status (snd p) \<noteq> Completed
          \<and> \<not> truthy (checkoutUrl (snd p)) \<longrightarrow>
       retryPayment d st k =
         (paymentRepo_updatePaymentStatus d st (fst p) Pending, Inl NoCheckoutAvailable))
   \<and> (\<forall>i p. ledger_getPaymentByOrderId w k = Some (i, p) \<and> status p \<noteq> Completed
          \<and> \<not> truthy (checkoutUrl p) \<longrightarrow>
       (\<exists>w'. retryPayment (ledger key reply verify) w k = (w', Inl NoCheckoutAvailable)
             \<and> ledger_getPaymentById w' i = Some (i, p\<lparr>status := Pending\<rparr>)
             \<and> orders w' = orders w
             \<and> (status p \<noteq> Pending \<longrightarrow> payments w' \<noteq> payments w)))"
proof -
  have a: "\<forall>p. paymentRepo_getPaymentByOrderId d st k = Some p \<and> status (snd p) \<noteq> Completed
          \<and> \<not> truthy (checkoutUrl (snd p)) \<longrightarrow>
       retryPayment d st k =
         (paymentRepo_updatePaymentStatus d st (fst p) Pending, Inl NoCheckoutAvailable)"
    by (simp add: retryPayment_def NoCheckoutAvailable_def)
  have b: "\<exists>w'. retryPayment (ledger key reply verify) w k = (w', Inl NoCheckoutAvailable)
             \<and> ledger_getPaymentById w' i = Some (i, p\<lparr>status := Pending\<rparr>)
             \<and> orders w' = orders w
             \<and> (status p \<noteq> Pending \<longrightarrow> payments w' \<noteq> payments w)"
    if found: "ledger_getPaymentByOrderId w k = Some (i, p)"
      and open_: "status p \<noteq> Completed" and nourl: "\<not> truthy (checkoutUrl p)"
    for i p
  proof -
    from getPaymentByOrderId_Some [OF found]
    have i: "i < length (payments w)" and p: "payments w ! i = p" by simp_all
    let ?w' = "ledger_updatePaymentStatus w i Pending"
    have res: "retryPayment (ledger key reply verify) w k = (?w', Inl NoCheckoutAvailable)"
      using found open_ nourl by (simp add: retryPayment_def NoCheckoutAvailable_def)
    have ps: "payments ?w' = (payments w)[i := p\<lparr>status := Pending\<rparr>]"
      using p by (simp add: ledger_updatePaymentStatus_def)
    have get: "ledger_getPaymentById ?w' i = Some (i, p\<lparr>status := Pending\<rparr>)"
      using i ps by (simp add: ledger_getPaymentById_def)
    have ord: "orders ?w' = orders w"
      by (simp add: ledger_updatePaymentStatus_def)
    have diff: "payments ?w' \<noteq> payments w" if "status p \<noteq> Pending"
    proof
      assume "payments ?w' = payments w"
      then have "payments ?w' ! i = payments w ! i" by simp
      with ps i p have "p\<lparr>status := Pending\<rparr> = p" by simp
      then have "status (p\<lparr>status := Pending\<rparr>) = status p" by simp
      with that show False by simp
    qed
    from res get ord diff show ?thesis by blast
  qed
  from a b show ?thesis by blast
qed

text \<open>
  The failed payment of the example is pending after the retry that raised.
\<close>

theorem retry_resets_before_raising_witness:
  "\<exists>w'. retryPayment shop failed_world ''o1'' = (w', Inl NoCheckoutAvailable)
        \<and> map_option (status \<circ> snd) (ledger_getPaymentById failed_world 0) = Some Failed
        \<and> map_option (status \<circ> snd) (ledger_getPaymentById w' 0) = Some Pending
        \<and> payments w' \<noteq> payments failed_world"
proof -
  define pf where "pf = payment1\<lparr>status := Failed, errorCode := Some ''BAD_REQUEST_ERROR'',
    failureReason := Some ''payment_failed''\<rparr>"
  have pre: "ledger_getPaymentByOrderId failed_world ''o1'' = Some (0, pf)
      \<and> status pf \<noteq> Completed \<and> \<not> truthy (checkoutUrl pf) \<and> status pf \<noteq> Pending"
    by (simp add: failed_world_eq pf_def payment1_def ledger_defs)
  have before: "map_option (status \<circ> snd) (ledger_getPaymentById failed_world 0) = Some Failed"
    by (simp add: failed_world_eq ledger_defs)
  from pre retry_resets_before_raising
    [of undefined undefined "''o1''" failed_world "''rzp_key''"
      "\<lambda>n r a. Some (''gw_'' @ id_text (Suc n))" "\<lambda>ro rp sg. sg = ''good''"]
  obtain w' where "retryPayment shop failed_world ''o1'' = (w', Inl NoCheckoutAvailable)"
    "ledger_getPaymentById w' 0 = Some (0, pf\<lparr>status := Pending\<rparr>)"
    "payments w' \<noteq> payments failed_world"
    unfolding shop_def by blast
  with before show ?thesis by auto
qed

end
